theory Spec2Isabelle
  imports Main
begin

section \<open>The schedule store\<close>

text \<open>
  The tables of the relational schema that \<^verbatim>\<open>src/server/routers/scheduler.ts\<close> reads and
  writes, each a list of rows in table order. Identifiers are the numbers of the schema
  (\<^verbatim>\<open>z.number()\<close> in the procedure inputs), modelled as \<open>int\<close>; a nullable column is an
  \<open>option\<close>. Only the columns the scheduler procedures touch are kept.
\<close>

record grade_row =
  grd_id :: int
  grd_name :: string

record class_row =
  cls_id :: int
  cls_name :: string
  cls_gradeId :: "int option"

record block_row =
  blk_id :: int
  blk_name :: string

record room_row =
  rm_id :: int
  rm_name :: string

record teacher_row =
  tch_id :: int
  tch_name :: string

record dutyType_row =
  dty_id :: int
  dty_typeName :: string

record classSession_row =
  cs_id :: int
  cs_classId :: int
  cs_blockId :: int
  cs_dayOfWeek :: int
  cs_roomId :: int
  cs_semesterId :: int
  cs_homeroomId :: "int option"

record classSessionTeacher_row =
  cst_id :: int
  cst_classSessionId :: int
  cst_teacherId :: int
  cst_role :: string

record duty_row =
  dut_id :: int
  dut_teacherId :: int
  dut_blockId :: int
  dut_dayOfWeek :: int
  dut_dutyTypeId :: int
  dut_roomId :: int
  dut_semesterId :: int

text \<open>
  Semesters and homerooms are only referenced (foreign keys of \<^verbatim>\<open>class_sessions\<close>), so the
  store keeps the identifiers of their rows.
\<close>

record store =
  grades :: "grade_row list"
  classes :: "class_row list"
  blocks :: "block_row list"
  rooms :: "room_row list"
  teachers :: "teacher_row list"
  dutyTypes :: "dutyType_row list"
  semesterIds :: "int list"
  homeroomIds :: "int list"
  classSessions :: "classSession_row list"
  classSessionTeachers :: "classSessionTeacher_row list"
  duties :: "duty_row list"

subsection \<open>Errors\<close>

text \<open>
  \<open>TRPCError code message\<close> is the error the procedures throw themselves.
  \<open>InputRejected\<close> is the rejection of an input that does not parse against the
  procedure's \<^verbatim>\<open>.input(z.object(...))\<close> schema, raised before the body runs.
  \<open>StoreFailure\<close> is an error raised by the database client: a violated constraint of the
  schema, or an update of a row that does not exist.
\<close>

datatype code = NOT_FOUND | BAD_REQUEST | CONFLICT

datatype error = TRPCError code string | InputRejected | StoreFailure

subsection \<open>Reading the store\<close>

definition class_findUnique :: "store \<Rightarrow> int \<Rightarrow> class_row option" where
  "class_findUnique s i = find (\<lambda>c. cls_id c = i) (classes s)"

definition block_findUnique :: "store \<Rightarrow> int \<Rightarrow> block_row option" where
  "block_findUnique s i = find (\<lambda>b. blk_id b = i) (blocks s)"

definition grade_findUnique :: "store \<Rightarrow> int \<Rightarrow> grade_row option" where
  "grade_findUnique s i = find (\<lambda>g. grd_id g = i) (grades s)"

definition room_findUnique :: "store \<Rightarrow> int \<Rightarrow> room_row option" where
  "room_findUnique s i = find (\<lambda>r. rm_id r = i) (rooms s)"

definition teacher_findUnique :: "store \<Rightarrow> int \<Rightarrow> teacher_row option" where
  "teacher_findUnique s i = find (\<lambda>t. tch_id t = i) (teachers s)"

text \<open>
  \<^verbatim>\<open>include: { class: true }\<close> on a query of class sessions joins every session with the
  row of its class. The relation is required and guarded by a foreign key, so the join is
  modelled as an inner join: the list of the sessions, in table order, each paired with
  its class.
\<close>

definition withClass :: "store \<Rightarrow> classSession_row \<Rightarrow> (classSession_row \<times> class_row) option" where
  "withClass s x = map_option (Pair x) (class_findUnique s (cs_classId x))"

definition sessionsWithClass :: "store \<Rightarrow> (classSession_row \<times> class_row) list" where
  "sessionsWithClass s = List.map_filter (withClass s) (classSessions s)"

definition classSession_findUnique :: "store \<Rightarrow> int \<Rightarrow> (classSession_row \<times> class_row) option" where
  "classSession_findUnique s i = find (\<lambda>(x, c). cs_id x = i) (sessionsWithClass s)"

text \<open>
  The names that an \<^verbatim>\<open>include\<close> brings into a message. The foreign keys of the schema
  guarantee that the named row exists; the empty string stands for a row that does not.
\<close>

definition roomName :: "store \<Rightarrow> int \<Rightarrow> string" where
  "roomName s i = (case room_findUnique s i of Some r \<Rightarrow> rm_name r | None \<Rightarrow> [])"

definition teacherName :: "store \<Rightarrow> int \<Rightarrow> string" where
  "teacherName s i = (case teacher_findUnique s i of Some t \<Rightarrow> tch_name t | None \<Rightarrow> [])"

definition dutyTypeName :: "store \<Rightarrow> int \<Rightarrow> string" where
  "dutyTypeName s i =
     (case find (\<lambda>t. dty_id t = i) (dutyTypes s) of Some t \<Rightarrow> dty_typeName t | None \<Rightarrow> [])"

subsection \<open>Numbers in messages\<close>

fun showNat :: "nat \<Rightarrow> string" where
  "showNat n =
     (if n < 10 then [''0123456789'' ! n]
      else showNat (n div 10) @ [''0123456789'' ! (n mod 10)])"

declare showNat.simps [simp del]

definition showInt :: "int \<Rightarrow> string" where
  "showInt i = (if i < 0 then CHR ''-'' # showNat (nat (- i)) else showNat (nat i))"

definition DAY_NAMES :: "string list" where
  "DAY_NAMES = [''Monday'', ''Tuesday'', ''Wednesday'', ''Thursday'', ''Friday'']"

text \<open>
  \<^verbatim>\<open>DAY_NAMES[targetDayOfWeek - 1]\<close> inside a template string. The input schema admits
  the days 1 to 5 only; an index outside the array would print as \<^verbatim>\<open>undefined\<close>.
\<close>

definition dayName :: "int \<Rightarrow> string" where
  "dayName d = (if 1 \<le> d \<and> d \<le> 5 then DAY_NAMES ! nat (d - 1) else ''undefined'')"

text \<open>Truthiness of a nullable number: \<^verbatim>\<open>if (x)\<close> fails on null, undefined and 0.\<close>

definition truthy :: "int option \<Rightarrow> bool" where
  "truthy x = (case x of None \<Rightarrow> False | Some n \<Rightarrow> n \<noteq> 0)"

section \<open>The conflict evaluator\<close>

datatype ConflictType = CT_teacher | CT_room | CT_homeroom | CT_a_level

datatype WarningType = WT_duplicate_class

record Conflict =
  conflict_type :: ConflictType
  conflict_message :: string
  conflict_relatedSessionId :: "int option"

record Warning =
  warning_type :: WarningType
  warning_message :: string
  warning_relatedSessionId :: "int option"

record ValidationResult =
  valid :: bool
  conflicts :: "Conflict list"
  warnings :: "Warning list"

text \<open>
  The procedures are reached through \<^verbatim>\<open>adminProcedure\<close>; the caller is taken to be
  authorised. A procedure that only reads takes the store and returns its result.

  \<^verbatim>\<open>validateSessionCreate\<close> and \<^verbatim>\<open>validateSessionMove\<close> run the same queries; the move
  adds \<^verbatim>\<open>id: { not: classSessionId }\<close> to every query of class sessions. \<open>notSelf excl x\<close>
  is that clause: \<open>excl\<close> is \<open>None\<close> for a creation and the moved session's id for a move.
\<close>

definition notSelf :: "int option \<Rightarrow> classSession_row \<Rightarrow> bool" where
  "notSelf excl x = (case excl of None \<Rightarrow> True | Some i \<Rightarrow> cs_id x \<noteq> i)"

definition inSlot :: "int option \<Rightarrow> int \<Rightarrow> int \<Rightarrow> int \<Rightarrow> classSession_row \<Rightarrow> bool" where
  "inSlot excl blockId dayOfWeek semesterId x =
     (notSelf excl x \<and> cs_blockId x = blockId \<and> cs_dayOfWeek x = dayOfWeek
      \<and> cs_semesterId x = semesterId)"

text \<open>Room conflicts (classes): \<^verbatim>\<open>classSession.findFirst\<close> on the slot and the room.\<close>

definition roomCheck ::
  "store \<Rightarrow> int option \<Rightarrow> block_row \<Rightarrow> int \<Rightarrow> int \<Rightarrow> int \<Rightarrow> Conflict list" where
  "roomCheck s excl targetBlock targetDayOfWeek targetRoomId semesterId =
     (case find (\<lambda>(x, c). inSlot excl (blk_id targetBlock) targetDayOfWeek semesterId x
                          \<and> cs_roomId x = targetRoomId) (sessionsWithClass s) of
        None \<Rightarrow> []
      | Some (roomConflict, c) \<Rightarrow>
          [\<lparr>conflict_type = CT_room,
            conflict_message = roomName s (cs_roomId roomConflict) @ '' is already booked for ''
              @ cls_name c @ '' in '' @ blk_name targetBlock @ '' ('' @ dayName targetDayOfWeek
              @ '').'',
            conflict_relatedSessionId = Some (cs_id roomConflict)\<rparr>])"

text \<open>Room conflicts (duties): \<^verbatim>\<open>duty.findFirst\<close> on the slot and the room.\<close>

definition roomDutyCheck :: "store \<Rightarrow> block_row \<Rightarrow> int \<Rightarrow> int \<Rightarrow> int \<Rightarrow> Conflict list" where
  "roomDutyCheck s targetBlock targetDayOfWeek targetRoomId semesterId =
     (case find (\<lambda>d. dut_blockId d = blk_id targetBlock \<and> dut_dayOfWeek d = targetDayOfWeek
                     \<and> dut_roomId d = targetRoomId \<and> dut_semesterId d = semesterId) (duties s) of
        None \<Rightarrow> []
      | Some roomDutyConflict \<Rightarrow>
          [\<lparr>conflict_type = CT_room,
            conflict_message = roomName s (dut_roomId roomDutyConflict) @ '' is in use for ''
              @ dutyTypeName s (dut_dutyTypeId roomDutyConflict) @ '' duty by ''
              @ teacherName s (dut_teacherId roomDutyConflict) @ '' in '' @ blk_name targetBlock
              @ '' ('' @ dayName targetDayOfWeek @ '').'',
            conflict_relatedSessionId = None\<rparr>])"

text \<open>
  Homeroom overlap: only when the grade of the class is truthy, the first session of the
  slot whose class has that grade.
\<close>

definition homeroomCheck ::
  "store \<Rightarrow> int option \<Rightarrow> int option \<Rightarrow> block_row \<Rightarrow> int \<Rightarrow> int \<Rightarrow> Conflict list" where
  "homeroomCheck s excl gradeId targetBlock targetDayOfWeek semesterId =
     (if truthy gradeId then
        (case find (\<lambda>(x, c). inSlot excl (blk_id targetBlock) targetDayOfWeek semesterId x
                             \<and> cls_gradeId c = gradeId) (sessionsWithClass s) of
           None \<Rightarrow> []
         | Some (homeroomConflict, c) \<Rightarrow>
             [\<lparr>conflict_type = CT_homeroom,
               conflict_message = ''Students would have a conflict: '' @ cls_name c
                 @ '' is scheduled at the same time in '' @ blk_name targetBlock @ '' (''
                 @ dayName targetDayOfWeek @ '').'',
               conflict_relatedSessionId = Some (cs_id homeroomConflict)\<rparr>])
      else [])"

text \<open>
  Grade-independent against grade-specific: the body of the loop over
  \<^verbatim>\<open>conflictingSessions\<close>, for one session of the slot with its class.
\<close>

definition gradeExclusivityStep ::
  "int option \<Rightarrow> block_row \<Rightarrow> int \<Rightarrow> classSession_row \<times> class_row \<Rightarrow> Conflict list" where
  "gradeExclusivityStep gradeId targetBlock targetDayOfWeek p =
     (case p of (conflictSession, c) \<Rightarrow>
        (if gradeId \<noteq> None \<and> cls_gradeId c = None then
           [\<lparr>conflict_type = CT_homeroom,
             conflict_message = ''Cannot schedule grade-specific class. '' @ cls_name c
               @ '' (shared) is already scheduled in '' @ blk_name targetBlock @ '' (''
               @ dayName targetDayOfWeek @ '').'',
             conflict_relatedSessionId = Some (cs_id conflictSession)\<rparr>]
         else [])
        @
        (if gradeId = None \<and> cls_gradeId c \<noteq> None then
           [\<lparr>conflict_type = CT_homeroom,
             conflict_message = ''Cannot schedule shared class. '' @ cls_name c
               @ '' (grade-specific) is already scheduled in '' @ blk_name targetBlock @ '' (''
               @ dayName targetDayOfWeek @ '').'',
             conflict_relatedSessionId = Some (cs_id conflictSession)\<rparr>]
         else []))"

text \<open>
  \<^verbatim>\<open>conflictingSessions\<close>: \<^verbatim>\<open>classSession.findMany\<close> on the slot, whatever the room.
\<close>

definition conflictingSessions ::
  "store \<Rightarrow> int option \<Rightarrow> int \<Rightarrow> int \<Rightarrow> int \<Rightarrow> (classSession_row \<times> class_row) list" where
  "conflictingSessions s excl blockId dayOfWeek semesterId =
     filter (\<lambda>(x, c). inSlot excl blockId dayOfWeek semesterId x) (sessionsWithClass s)"

definition gradeExclusivityCheck ::
  "store \<Rightarrow> int option \<Rightarrow> int option \<Rightarrow> block_row \<Rightarrow> int \<Rightarrow> int \<Rightarrow> Conflict list" where
  "gradeExclusivityCheck s excl gradeId targetBlock targetDayOfWeek semesterId =
     concat (map (gradeExclusivityStep gradeId targetBlock targetDayOfWeek)
       (conflictingSessions s excl (blk_id targetBlock) targetDayOfWeek semesterId))"

text \<open>
  Duplicate classes on the same day: every session of the class on that day of the
  semester, whatever its block. \<^verbatim>\<open>duplicateCheck[0]\<close> is read only when the list is not
  empty.
\<close>

definition duplicateCheck :: "store \<Rightarrow> int option \<Rightarrow> int \<Rightarrow> int \<Rightarrow> int \<Rightarrow> classSession_row list" where
  "duplicateCheck s excl classId targetDayOfWeek semesterId =
     map fst (filter (\<lambda>(x, c). notSelf excl x \<and> cs_dayOfWeek x = targetDayOfWeek
                 \<and> cs_semesterId x = semesterId \<and> cs_classId x = classId) (sessionsWithClass s))"

definition duplicateWarning :: "string \<Rightarrow> int \<Rightarrow> classSession_row list \<Rightarrow> Warning list" where
  "duplicateWarning className targetDayOfWeek dups =
     (case dups of
        [] \<Rightarrow> []
      | first # _ \<Rightarrow>
          [\<lparr>warning_type = WT_duplicate_class,
            warning_message = className @ '' is already scheduled '' @ showNat (length dups)
              @ '' time(s) on '' @ dayName targetDayOfWeek @ ''.'',
            warning_relatedSessionId = Some (cs_id first)\<rparr>])"

record createInput =
  vc_classId :: int
  vc_targetBlockId :: int
  vc_targetDayOfWeek :: int
  vc_targetRoomId :: int
  vc_semesterId :: int

text \<open>
  The body of \<^verbatim>\<open>validateSessionCreate\<close> after its two lookups: the conflicts in the
  order they are pushed, and the warnings.
\<close>

definition createConflicts :: "store \<Rightarrow> createInput \<Rightarrow> class_row \<Rightarrow> block_row \<Rightarrow> Conflict list" where
  "createConflicts s input classToSchedule targetBlock =
     roomCheck s None targetBlock (vc_targetDayOfWeek input) (vc_targetRoomId input)
       (vc_semesterId input)
     @ roomDutyCheck s targetBlock (vc_targetDayOfWeek input) (vc_targetRoomId input)
         (vc_semesterId input)
     @ homeroomCheck s None (cls_gradeId classToSchedule) targetBlock
         (vc_targetDayOfWeek input) (vc_semesterId input)
     @ gradeExclusivityCheck s None (cls_gradeId classToSchedule) targetBlock
         (vc_targetDayOfWeek input) (vc_semesterId input)"

definition createWarnings :: "store \<Rightarrow> createInput \<Rightarrow> class_row \<Rightarrow> Warning list" where
  "createWarnings s input classToSchedule =
     duplicateWarning (cls_name classToSchedule) (vc_targetDayOfWeek input)
       (duplicateCheck s None (vc_classId input) (vc_targetDayOfWeek input)
          (vc_semesterId input))"

definition validateSessionCreate :: "store \<Rightarrow> createInput \<Rightarrow> error + ValidationResult" where
  "validateSessionCreate s input =
     (if \<not> (1 \<le> vc_targetDayOfWeek input \<and> vc_targetDayOfWeek input \<le> 5) then Inl InputRejected
      else case class_findUnique s (vc_classId input) of
        None \<Rightarrow> Inl (TRPCError NOT_FOUND ''Class not found'')
      | Some classToSchedule \<Rightarrow>
        (case block_findUnique s (vc_targetBlockId input) of
           None \<Rightarrow> Inl (TRPCError NOT_FOUND ''Target block not found'')
         | Some targetBlock \<Rightarrow>
             Inr \<lparr>valid = (length (createConflicts s input classToSchedule targetBlock) = 0),
                  conflicts = createConflicts s input classToSchedule targetBlock,
                  warnings = createWarnings s input classToSchedule\<rparr>))"

text \<open>
  \<^verbatim>\<open>session.teachers\<close>: the teacher links of the session, in table order.
\<close>

definition sessionTeachers :: "store \<Rightarrow> int \<Rightarrow> classSessionTeacher_row list" where
  "sessionTeachers s sessionId =
     filter (\<lambda>l. cst_classSessionId l = sessionId) (classSessionTeachers s)"

text \<open>
  \<^verbatim>\<open>classSessionTeacher.findFirst\<close> with a condition on the related session and
  \<^verbatim>\<open>include: { classSession: { include: { class: true } } }\<close>: the links joined with their
  session and its class.
\<close>

definition linksWithSession ::
  "store \<Rightarrow> (classSessionTeacher_row \<times> classSession_row \<times> class_row) list" where
  "linksWithSession s =
     List.map_filter
       (\<lambda>l. map_option (Pair l) (classSession_findUnique s (cst_classSessionId l)))
       (classSessionTeachers s)"

text \<open>
  Teacher double booking: the body of the loop over \<^verbatim>\<open>session.teachers\<close>, for one
  teacher assignment: the first other session of the slot that the teacher is linked to,
  then the first duty of the teacher in the slot.
\<close>

definition teacherStep ::
  "store \<Rightarrow> int \<Rightarrow> block_row \<Rightarrow> int \<Rightarrow> int \<Rightarrow> classSessionTeacher_row \<Rightarrow> Conflict list" where
  "teacherStep s classSessionId targetBlock targetDayOfWeek semesterId teacherAssignment =
     (case find (\<lambda>(l, x, c). cst_teacherId l = cst_teacherId teacherAssignment
                   \<and> inSlot (Some classSessionId) (blk_id targetBlock) targetDayOfWeek semesterId x)
             (linksWithSession s) of
        None \<Rightarrow> []
      | Some (teacherConflict, x, c) \<Rightarrow>
          [\<lparr>conflict_type = CT_teacher,
            conflict_message = teacherName s (cst_teacherId teacherAssignment)
              @ '' is already teaching '' @ cls_name c @ '' in '' @ blk_name targetBlock
              @ '' ('' @ dayName targetDayOfWeek @ '').'',
            conflict_relatedSessionId = Some (cs_id x)\<rparr>])
     @
     (case find (\<lambda>d. dut_teacherId d = cst_teacherId teacherAssignment
                   \<and> dut_blockId d = blk_id targetBlock \<and> dut_dayOfWeek d = targetDayOfWeek
                   \<and> dut_semesterId d = semesterId) (duties s) of
        None \<Rightarrow> []
      | Some dutyConflict \<Rightarrow>
          [\<lparr>conflict_type = CT_teacher,
            conflict_message = teacherName s (cst_teacherId teacherAssignment) @ '' has ''
              @ dutyTypeName s (dut_dutyTypeId dutyConflict) @ '' duty in ''
              @ blk_name targetBlock @ '' ('' @ dayName targetDayOfWeek @ '').'',
            conflict_relatedSessionId = None\<rparr>])"

definition teacherCheck :: "store \<Rightarrow> int \<Rightarrow> block_row \<Rightarrow> int \<Rightarrow> int \<Rightarrow> Conflict list" where
  "teacherCheck s classSessionId targetBlock targetDayOfWeek semesterId =
     concat (map (teacherStep s classSessionId targetBlock targetDayOfWeek semesterId)
       (sessionTeachers s classSessionId))"

record moveInput =
  vm_classSessionId :: int
  vm_targetBlockId :: int
  vm_targetDayOfWeek :: int
  vm_targetRoomId :: int
  vm_semesterId :: int

text \<open>
  The body of \<^verbatim>\<open>validateSessionMove\<close> after its two lookups.
\<close>

definition moveConflicts :: "store \<Rightarrow> moveInput \<Rightarrow> class_row \<Rightarrow> block_row \<Rightarrow> Conflict list" where
  "moveConflicts s input sessionClass targetBlock =
     teacherCheck s (vm_classSessionId input) targetBlock (vm_targetDayOfWeek input)
       (vm_semesterId input)
     @ roomCheck s (Some (vm_classSessionId input)) targetBlock (vm_targetDayOfWeek input)
         (vm_targetRoomId input) (vm_semesterId input)
     @ roomDutyCheck s targetBlock (vm_targetDayOfWeek input) (vm_targetRoomId input)
         (vm_semesterId input)
     @ homeroomCheck s (Some (vm_classSessionId input)) (cls_gradeId sessionClass) targetBlock
         (vm_targetDayOfWeek input) (vm_semesterId input)
     @ gradeExclusivityCheck s (Some (vm_classSessionId input)) (cls_gradeId sessionClass)
         targetBlock (vm_targetDayOfWeek input) (vm_semesterId input)"

definition moveWarnings :: "store \<Rightarrow> moveInput \<Rightarrow> classSession_row \<Rightarrow> class_row \<Rightarrow> Warning list" where
  "moveWarnings s input session sessionClass =
     duplicateWarning (cls_name sessionClass) (vm_targetDayOfWeek input)
       (duplicateCheck s (Some (vm_classSessionId input)) (cs_classId session)
          (vm_targetDayOfWeek input) (vm_semesterId input))"

definition validateSessionMove :: "store \<Rightarrow> moveInput \<Rightarrow> error + ValidationResult" where
  "validateSessionMove s input =
     (if \<not> (1 \<le> vm_targetDayOfWeek input \<and> vm_targetDayOfWeek input \<le> 5) then Inl InputRejected
      else case classSession_findUnique s (vm_classSessionId input) of
        None \<Rightarrow> Inl (TRPCError NOT_FOUND ''Class session not found'')
      | Some (session, sessionClass) \<Rightarrow>
        (case block_findUnique s (vm_targetBlockId input) of
           None \<Rightarrow> Inl (TRPCError NOT_FOUND ''Target block not found'')
         | Some targetBlock \<Rightarrow>
             Inr \<lparr>valid = (length (moveConflicts s input sessionClass targetBlock) = 0),
                  conflicts = moveConflicts s input sessionClass targetBlock,
                  warnings = moveWarnings s input session sessionClass\<rparr>))"

section \<open>Writing the store\<close>

text \<open>
  The writes of the database client, under the constraints of the schema (the
  \<^verbatim>\<open>CREATE TABLE\<close> statements of the repository and the migration that adds
  \<^verbatim>\<open>homeroom_id\<close>): the primary
  keys are \<^verbatim>\<open>AUTO_INCREMENT\<close> columns, \<^verbatim>\<open>class_sessions\<close> has
  \<^verbatim>\<open>UNIQUE (block_id, day_of_week, room_id, semester_id)\<close>, a
  \<^verbatim>\<open>CHECK (day_of_week BETWEEN 1 AND 5)\<close> and foreign keys to its class, block, room,
  semester and (nullable) homeroom; \<^verbatim>\<open>class_session_teachers\<close> has a unique index on
  \<^verbatim>\<open>(teacher_id, class_session_id)\<close> and foreign keys to its session and teacher.
  A write that violates a constraint fails and changes nothing. The constraints are
  checked on the whole row that is written; those on columns that an update leaves alone
  hold already in a store that satisfies the schema.

  \<open>nextId\<close> stands for the \<^verbatim>\<open>AUTO_INCREMENT\<close> counter: an identifier above those of all
  rows of the table. The values a real counter skips are not modelled.
\<close>

definition nextId :: "int list \<Rightarrow> int" where
  "nextId ids = fold max ids 0 + 1"

definition classSession_constraintsOk :: "store \<Rightarrow> classSession_row \<Rightarrow> bool" where
  "classSession_constraintsOk s x =
     (class_findUnique s (cs_classId x) \<noteq> None
      \<and> block_findUnique s (cs_blockId x) \<noteq> None
      \<and> room_findUnique s (cs_roomId x) \<noteq> None
      \<and> List.member (semesterIds s) (cs_semesterId x)
      \<and> (case cs_homeroomId x of None \<Rightarrow> True | Some h \<Rightarrow> List.member (homeroomIds s) h)
      \<and> 1 \<le> cs_dayOfWeek x \<and> cs_dayOfWeek x \<le> 5
      \<and> \<not> list_ex (\<lambda>y. cs_id y \<noteq> cs_id x \<and> cs_blockId y = cs_blockId x
                          \<and> cs_dayOfWeek y = cs_dayOfWeek x \<and> cs_roomId y = cs_roomId x
                          \<and> cs_semesterId y = cs_semesterId x) (classSessions s))"

definition classSession_create ::
  "store \<Rightarrow> int \<Rightarrow> int \<Rightarrow> int \<Rightarrow> int \<Rightarrow> int \<Rightarrow> int option \<Rightarrow> error + (classSession_row \<times> store)" where
  "classSession_create s classId blockId dayOfWeek roomId semesterId homeroomId =
     (let created = \<lparr>cs_id = nextId (map cs_id (classSessions s)), cs_classId = classId,
                      cs_blockId = blockId, cs_dayOfWeek = dayOfWeek, cs_roomId = roomId,
                      cs_semesterId = semesterId, cs_homeroomId = homeroomId\<rparr>
      in if classSession_constraintsOk s created
         then Inr (created, s\<lparr>classSessions := classSessions s @ [created]\<rparr>)
         else Inl StoreFailure)"

text \<open>
  \<^verbatim>\<open>classSession.update({ where: { id }, data })\<close>: \<open>data\<close> is the change of the row's
  columns. The update of a row that does not exist fails.
\<close>

definition classSession_update ::
  "store \<Rightarrow> int \<Rightarrow> (classSession_row \<Rightarrow> classSession_row) \<Rightarrow> error + (classSession_row \<times> store)" where
  "classSession_update s i data =
     (case find (\<lambda>x. cs_id x = i) (classSessions s) of
        None \<Rightarrow> Inl StoreFailure
      | Some row \<Rightarrow>
          (if classSession_constraintsOk s (data row)
           then Inr (data row,
                  s\<lparr>classSessions := map (\<lambda>x. if cs_id x = i then data x else x) (classSessions s)\<rparr>)
           else Inl StoreFailure))"

definition classSessionTeacher_deleteMany :: "store \<Rightarrow> int \<Rightarrow> store" where
  "classSessionTeacher_deleteMany s classSessionId =
     s\<lparr>classSessionTeachers :=
         filter (\<lambda>l. cst_classSessionId l \<noteq> classSessionId) (classSessionTeachers s)\<rparr>"

definition classSessionTeacher_create ::
  "store \<Rightarrow> int \<Rightarrow> int \<Rightarrow> string \<Rightarrow> error + (classSessionTeacher_row \<times> store)" where
  "classSessionTeacher_create s classSessionId teacherId role =
     (let created = \<lparr>cst_id = nextId (map cst_id (classSessionTeachers s)),
                      cst_classSessionId = classSessionId, cst_teacherId = teacherId,
                      cst_role = role\<rparr>
      in if find (\<lambda>x. cs_id x = classSessionId) (classSessions s) \<noteq> None
            \<and> teacher_findUnique s teacherId \<noteq> None
            \<and> \<not> list_ex (\<lambda>l. cst_teacherId l = teacherId \<and> cst_classSessionId l = classSessionId)
                   (classSessionTeachers s)
         then Inr (created, s\<lparr>classSessionTeachers := classSessionTeachers s @ [created]\<rparr>)
         else Inl StoreFailure)"

section \<open>The batch commit engine\<close>

datatype changeType = Ch_move | Ch_create | Ch_update_room | Ch_update_teacher

record change =
  ch_type :: changeType
  ch_sessionId :: int
  ch_blockId :: "int option"
  ch_dayOfWeek :: "int option"
  ch_roomId :: "int option"
  ch_classId :: "int option"
  ch_semesterId :: "int option"
  ch_homeroomId :: "int option"
  ch_teacherId :: "int option"

record batchResult =
  res_type :: changeType
  res_id :: int

text \<open>
  \<^verbatim>\<open>cls.grade ? cls.grade.name : cls.gradeId\<close> inside a template string: the name of the
  grade row when there is one, the grade id as it prints otherwise.
\<close>

definition gradeName :: "store \<Rightarrow> int option \<Rightarrow> string" where
  "gradeName s gradeId =
     (case gradeId of
        None \<Rightarrow> ''null''
      | Some g \<Rightarrow> (case grade_findUnique s g of Some gr \<Rightarrow> grd_name gr | None \<Rightarrow> showInt g))"

text \<open>
  The grade conflict check of the batch: the first session of the slot whose class has
  the grade, for a grade that is truthy.
\<close>

definition gradeConflict ::
  "store \<Rightarrow> int option \<Rightarrow> int option \<Rightarrow> int \<Rightarrow> int \<Rightarrow> int \<Rightarrow> (classSession_row \<times> class_row) option" where
  "gradeConflict s excl gradeId blockId dayOfWeek semesterId =
     (if truthy gradeId then
        find (\<lambda>(x, c). inSlot excl blockId dayOfWeek semesterId x \<and> cls_gradeId c = gradeId)
          (sessionsWithClass s)
      else None)"

definition gradeConflictError :: "store \<Rightarrow> int option \<Rightarrow> class_row \<Rightarrow> error" where
  "gradeConflictError s gradeId c =
     TRPCError CONFLICT (''Grade Conflict: Grade '' @ gradeName s gradeId @ '' already has ''
       @ cls_name c @ '' scheduled at this time.'')"

text \<open>
  One iteration of the loop over \<^verbatim>\<open>changes\<close>, inside the transaction: the outcome is an
  error thrown, or the result pushed (\<open>None\<close> when the iteration ends with
  \<^verbatim>\<open>continue\<close>), together with the store as the iteration leaves it. Where a field is
  read with \<open>the\<close>, the check for missing fields before it has established that the field
  is present.
\<close>

definition applyCreate :: "change \<Rightarrow> store \<Rightarrow> (error + batchResult option) \<times> store" where
  "applyCreate change s =
     (if \<not> truthy (ch_classId change) \<or> \<not> truthy (ch_blockId change)
         \<or> \<not> truthy (ch_dayOfWeek change) \<or> \<not> truthy (ch_roomId change)
         \<or> \<not> truthy (ch_semesterId change)
      then (Inl (TRPCError BAD_REQUEST ''Missing required fields for create''), s)
      else case class_findUnique s (the (ch_classId change)) of
        None \<Rightarrow> (Inr None, s)
      | Some cls \<Rightarrow>
        (case gradeConflict s None (cls_gradeId cls) (the (ch_blockId change))
                (the (ch_dayOfWeek change)) (the (ch_semesterId change)) of
           Some (x, c) \<Rightarrow> (Inl (gradeConflictError s (cls_gradeId cls) c), s)
         | None \<Rightarrow>
           (case classSession_create s (the (ch_classId change)) (the (ch_blockId change))
                   (the (ch_dayOfWeek change)) (the (ch_roomId change))
                   (the (ch_semesterId change)) (ch_homeroomId change) of
              Inl e \<Rightarrow> (Inl e, s)
            | Inr (created, s') \<Rightarrow> (Inr (Some \<lparr>res_type = Ch_create, res_id = cs_id created\<rparr>), s'))))"

definition applyMove :: "change \<Rightarrow> store \<Rightarrow> (error + batchResult option) \<times> store" where
  "applyMove change s =
     (if \<not> truthy (ch_blockId change) \<or> \<not> truthy (ch_dayOfWeek change)
         \<or> \<not> truthy (ch_roomId change) \<or> ch_sessionId change = 0
      then (Inl (TRPCError BAD_REQUEST ''Missing required fields for move''), s)
      else case classSession_findUnique s (ch_sessionId change) of
        None \<Rightarrow>
          (Inl (TRPCError NOT_FOUND (''Session '' @ showInt (ch_sessionId change) @ '' not found'')), s)
      | Some (session, cls) \<Rightarrow>
        (case gradeConflict s (Some (ch_sessionId change)) (cls_gradeId cls)
                (the (ch_blockId change)) (the (ch_dayOfWeek change)) (cs_semesterId session) of
           Some (x, c) \<Rightarrow> (Inl (gradeConflictError s (cls_gradeId cls) c), s)
         | None \<Rightarrow>
           (case classSession_update s (ch_sessionId change)
                   (\<lambda>row. row\<lparr>cs_blockId := the (ch_blockId change),
                               cs_dayOfWeek := the (ch_dayOfWeek change),
                               cs_roomId := the (ch_roomId change)\<rparr>) of
              Inl e \<Rightarrow> (Inl e, s)
            | Inr (updated, s') \<Rightarrow> (Inr (Some \<lparr>res_type = Ch_move, res_id = cs_id updated\<rparr>), s'))))"

definition applyUpdateRoom :: "change \<Rightarrow> store \<Rightarrow> (error + batchResult option) \<times> store" where
  "applyUpdateRoom change s =
     (if \<not> truthy (ch_roomId change) \<or> ch_sessionId change = 0
      then (Inl (TRPCError BAD_REQUEST ''Missing required fields for update_room''), s)
      else case classSession_update s (ch_sessionId change)
                  (\<lambda>row. row\<lparr>cs_roomId := the (ch_roomId change)\<rparr>) of
        Inl e \<Rightarrow> (Inl e, s)
      | Inr (updated, s') \<Rightarrow> (Inr (Some \<lparr>res_type = Ch_update_room, res_id = cs_id updated\<rparr>), s'))"

definition applyUpdateTeacher :: "change \<Rightarrow> store \<Rightarrow> (error + batchResult option) \<times> store" where
  "applyUpdateTeacher change s =
     (if \<not> truthy (ch_teacherId change) \<or> ch_sessionId change = 0
      then (Inl (TRPCError BAD_REQUEST ''Missing required fields for update_teacher''), s)
      else let s1 = classSessionTeacher_deleteMany s (ch_sessionId change)
        in case classSessionTeacher_create s1 (ch_sessionId change) (the (ch_teacherId change))
                  ''Primary'' of
          Inl e \<Rightarrow> (Inl e, s1)
        | Inr (created, s2) \<Rightarrow>
            (Inr (Some \<lparr>res_type = Ch_update_teacher, res_id = ch_sessionId change\<rparr>), s2))"

definition applyChange :: "change \<Rightarrow> store \<Rightarrow> (error + batchResult option) \<times> store" where
  "applyChange change s =
     (case ch_type change of
        Ch_create \<Rightarrow> applyCreate change s
      | Ch_move \<Rightarrow> applyMove change s
      | Ch_update_room \<Rightarrow> applyUpdateRoom change s
      | Ch_update_teacher \<Rightarrow> applyUpdateTeacher change s)"

text \<open>
  The loop \<^verbatim>\<open>for (const change of changes)\<close> with its accumulator \<^verbatim>\<open>results\<close>: an error
  thrown in an iteration ends the loop, with the store as the earlier iterations and the
  failed one left it.
\<close>

fun runChanges ::
  "change list \<Rightarrow> batchResult list \<Rightarrow> store \<Rightarrow> (error + batchResult list) \<times> store" where
  "runChanges [] results s = (Inr results, s)"
| "runChanges (change # rest) results s =
     (case applyChange change s of
        (Inl e, s') \<Rightarrow> (Inl e, s')
      | (Inr None, s') \<Rightarrow> runChanges rest results s'
      | (Inr (Some r), s') \<Rightarrow> runChanges rest (results @ [r]) s')"

text \<open>
  \<^verbatim>\<open>ctx.db.$transaction(async (tx) => ...)\<close>, the interactive transaction of the database
  client: when the callback returns, its writes are committed; when it throws, they are
  rolled back and the error is thrown on.
\<close>

definition transaction ::
  "(store \<Rightarrow> (error + 'a) \<times> store) \<Rightarrow> store \<Rightarrow> (error + 'a) \<times> store" where
  "transaction body s =
     (case body s of
        (Inl e, s') \<Rightarrow> (Inl e, s)
      | (Inr r, s') \<Rightarrow> (Inr r, s'))"

text \<open>
  The input schema of \<^verbatim>\<open>batchSaveChanges\<close> restricts one field beyond its type:
  \<^verbatim>\<open>dayOfWeek: z.number().min(1).max(5).optional()\<close>.
\<close>

definition changeParses :: "change \<Rightarrow> bool" where
  "changeParses change =
     (case ch_dayOfWeek change of None \<Rightarrow> True | Some d \<Rightarrow> 1 \<le> d \<and> d \<le> 5)"

definition batchSaveChanges :: "change list \<Rightarrow> store \<Rightarrow> (error + batchResult list) \<times> store" where
  "batchSaveChanges changes s =
     (if list_all changeParses changes then transaction (runChanges changes []) s
      else (Inl InputRejected, s))"

text \<open>
  The creations that an iteration passes over with \<^verbatim>\<open>if (!cls) continue; // Skip invalid\<close>:
  the class of the change is not in the store.
\<close>

definition skipsChange :: "store \<Rightarrow> change \<Rightarrow> bool" where
  "skipsChange s change =
     (ch_type change = Ch_create
      \<and> (case ch_classId change of None \<Rightarrow> False
          | Some classId \<Rightarrow> class_findUnique s classId = None))"

text \<open>
  The columns of a session that no change of a batch writes after the session is created.
\<close>

definition sessionKey :: "classSession_row \<Rightarrow> int \<times> int \<times> int \<times> int option" where
  "sessionKey x = (cs_id x, cs_classId x, cs_semesterId x, cs_homeroomId x)"

section \<open>A sample schedule\<close>

text \<open>
  One semester with three blocks, three rooms and two teachers. Math10 and Bio10 belong
  to Grade 10, Math11 to Grade 11, Chem12 to Grade 12; Spanish and Art are shared. T1
  teaches session 1 (Math10, B1 on Monday in R1) and, with T2, session 2 (Math11, B2 on
  Tuesday in R2); T2 has lunch duty in B1 on Monday in R3.
\<close>

definition exStore :: store where
  "exStore =
     \<lparr>grades = [\<lparr>grd_id = 1, grd_name = ''Grade 10''\<rparr>, \<lparr>grd_id = 2, grd_name = ''Grade 11''\<rparr>,
                \<lparr>grd_id = 3, grd_name = ''Grade 12''\<rparr>],
      classes = [\<lparr>cls_id = 1, cls_name = ''Math10'', cls_gradeId = Some 1\<rparr>,
                 \<lparr>cls_id = 2, cls_name = ''Math11'', cls_gradeId = Some 2\<rparr>,
                 \<lparr>cls_id = 3, cls_name = ''Spanish'', cls_gradeId = None\<rparr>,
                 \<lparr>cls_id = 4, cls_name = ''Bio10'', cls_gradeId = Some 1\<rparr>,
                 \<lparr>cls_id = 5, cls_name = ''Art'', cls_gradeId = None\<rparr>,
                 \<lparr>cls_id = 6, cls_name = ''Chem12'', cls_gradeId = Some 3\<rparr>],
      blocks = [\<lparr>blk_id = 1, blk_name = ''B1''\<rparr>, \<lparr>blk_id = 2, blk_name = ''B2''\<rparr>,
                \<lparr>blk_id = 3, blk_name = ''B3''\<rparr>],
      rooms = [\<lparr>rm_id = 1, rm_name = ''R1''\<rparr>, \<lparr>rm_id = 2, rm_name = ''R2''\<rparr>,
               \<lparr>rm_id = 3, rm_name = ''R3''\<rparr>],
      teachers = [\<lparr>tch_id = 1, tch_name = ''T1''\<rparr>, \<lparr>tch_id = 2, tch_name = ''T2''\<rparr>],
      dutyTypes = [\<lparr>dty_id = 1, dty_typeName = ''Lunch''\<rparr>],
      semesterIds = [1],
      homeroomIds = [1],
      classSessions =
        [\<lparr>cs_id = 1, cs_classId = 1, cs_blockId = 1, cs_dayOfWeek = 1, cs_roomId = 1,
          cs_semesterId = 1, cs_homeroomId = Some 1\<rparr>,
         \<lparr>cs_id = 2, cs_classId = 2, cs_blockId = 2, cs_dayOfWeek = 2, cs_roomId = 2,
          cs_semesterId = 1, cs_homeroomId = Some 1\<rparr>,
         \<lparr>cs_id = 3, cs_classId = 4, cs_blockId = 2, cs_dayOfWeek = 2, cs_roomId = 3,
          cs_semesterId = 1, cs_homeroomId = Some 1\<rparr>,
         \<lparr>cs_id = 4, cs_classId = 3, cs_blockId = 3, cs_dayOfWeek = 3, cs_roomId = 1,
          cs_semesterId = 1, cs_homeroomId = None\<rparr>,
         \<lparr>cs_id = 5, cs_classId = 1, cs_blockId = 3, cs_dayOfWeek = 4, cs_roomId = 1,
          cs_semesterId = 1, cs_homeroomId = Some 1\<rparr>,
         \<lparr>cs_id = 6, cs_classId = 4, cs_blockId = 1, cs_dayOfWeek = 1, cs_roomId = 2,
          cs_semesterId = 1, cs_homeroomId = Some 1\<rparr>],
      classSessionTeachers =
        [\<lparr>cst_id = 1, cst_classSessionId = 1, cst_teacherId = 1, cst_role = ''Primary''\<rparr>,
         \<lparr>cst_id = 2, cst_classSessionId = 2, cst_teacherId = 1, cst_role = ''Primary''\<rparr>,
         \<lparr>cst_id = 3, cst_classSessionId = 2, cst_teacherId = 2, cst_role = ''Assistant''\<rparr>],
      duties =
        [\<lparr>dut_id = 1, dut_teacherId = 2, dut_blockId = 1, dut_dayOfWeek = 1, dut_dutyTypeId = 1,
          dut_roomId = 3, dut_semesterId = 1\<rparr>]\<rparr>"

text \<open>Changes of a batch against the sample schedule.\<close>

definition exCreateChem :: change where
  "exCreateChem =
     \<lparr>ch_type = Ch_create, ch_sessionId = - 1, ch_blockId = Some 2, ch_dayOfWeek = Some 2,
      ch_roomId = Some 1, ch_classId = Some 6, ch_semesterId = Some 1, ch_homeroomId = Some 1,
      ch_teacherId = None\<rparr>"

definition exCreateMissingClass :: change where
  "exCreateMissingClass =
     \<lparr>ch_type = Ch_create, ch_sessionId = - 2, ch_blockId = Some 3, ch_dayOfWeek = Some 5,
      ch_roomId = Some 2, ch_classId = Some 99, ch_semesterId = Some 1, ch_homeroomId = None,
      ch_teacherId = None\<rparr>"


definition exCreateChemAgain :: change where
  "exCreateChemAgain =
     \<lparr>ch_type = Ch_create, ch_sessionId = - 1, ch_blockId = Some 3, ch_dayOfWeek = Some 5,
      ch_roomId = Some 2, ch_classId = Some 6, ch_semesterId = Some 1, ch_homeroomId = None,
      ch_teacherId = None\<rparr>"

definition exMove :: change where
  "exMove =
     \<lparr>ch_type = Ch_move, ch_sessionId = 5, ch_blockId = Some 2, ch_dayOfWeek = Some 1,
      ch_roomId = Some 1, ch_classId = None, ch_semesterId = None, ch_homeroomId = None,
      ch_teacherId = None\<rparr>"

definition exMoveRefused :: change where
  "exMoveRefused =
     \<lparr>ch_type = Ch_move, ch_sessionId = 5, ch_blockId = Some 1, ch_dayOfWeek = Some 1,
      ch_roomId = Some 3, ch_classId = None, ch_semesterId = Some 77, ch_homeroomId = None,
      ch_teacherId = None\<rparr>"

definition exUpdateRoom :: change where
  "exUpdateRoom =
     \<lparr>ch_type = Ch_update_room, ch_sessionId = 4, ch_blockId = None, ch_dayOfWeek = None,
      ch_roomId = Some 3, ch_classId = None, ch_semesterId = None, ch_homeroomId = None,
      ch_teacherId = None\<rparr>"

definition exUpdateTeacher :: change where
  "exUpdateTeacher =
     \<lparr>ch_type = Ch_update_teacher, ch_sessionId = 2, ch_blockId = None, ch_dayOfWeek = None,
      ch_roomId = None, ch_classId = None, ch_semesterId = None, ch_homeroomId = None,
      ch_teacherId = Some 2\<rparr>"


text \<open>
  The sample schedule with one more session: session 7 (Math11) in B3 on Monday in R3.
\<close>

definition exStoreBusy :: store where
  "exStoreBusy =
     exStore\<lparr>classSessions := classSessions exStore
        @ [\<lparr>cs_id = 7, cs_classId = 2, cs_blockId = 3, cs_dayOfWeek = 1, cs_roomId = 3,
            cs_semesterId = 1, cs_homeroomId = Some 1\<rparr>]\<rparr>"

text \<open>Validations against the sample schedule.\<close>

definition exSpanish :: class_row where
  "exSpanish = \<lparr>cls_id = 3, cls_name = ''Spanish'', cls_gradeId = None\<rparr>"

definition exCreateSpanish :: createInput where
  "exCreateSpanish =
     \<lparr>vc_classId = 3, vc_targetBlockId = 2, vc_targetDayOfWeek = 2, vc_targetRoomId = 1,
      vc_semesterId = 1\<rparr>"

definition exMoveSpanish :: moveInput where
  "exMoveSpanish =
     \<lparr>vm_classSessionId = 4, vm_targetBlockId = 2, vm_targetDayOfWeek = 2, vm_targetRoomId = 1,
      vm_semesterId = 1\<rparr>"

definition exCreateArt :: createInput where
  "exCreateArt =
     \<lparr>vc_classId = 5, vc_targetBlockId = 3, vc_targetDayOfWeek = 3, vc_targetRoomId = 2,
      vc_semesterId = 1\<rparr>"

definition exSpanishVerdict :: ValidationResult where
  "exSpanishVerdict =
     \<lparr>valid = False,
      conflicts =
        [\<lparr>conflict_type = CT_homeroom,
          conflict_message = ''Cannot schedule shared class. Math11 (grade-specific) is already scheduled in B2 (Tuesday).'',
          conflict_relatedSessionId = Some 2\<rparr>,
         \<lparr>conflict_type = CT_homeroom,
          conflict_message = ''Cannot schedule shared class. Bio10 (grade-specific) is already scheduled in B2 (Tuesday).'',
          conflict_relatedSessionId = Some 3\<rparr>],
      warnings = []\<rparr>"

section \<open>Properties of the queries and of the writes\<close>

subsection \<open>Lookups and joins\<close>

lemma find_SomeD: "find P xs = Some x \<Longrightarrow> P x \<and> x \<in> set xs"
  by (auto simp: find_Some_iff)

lemma sessionsWithClass_iff:
  "(x, c) \<in> set (sessionsWithClass s) \<longleftrightarrow>
     x \<in> set (classSessions s) \<and> class_findUnique s (cs_classId x) = Some c"
  by (force simp: sessionsWithClass_def withClass_def List.map_filter_def)

subsection \<open>Where the conflicts of a check come from\<close>

text \<open>
  Every conflict that a check returns has the type of the check and, when it names a
  session, names a session of the target slot that the check did not exclude.
\<close>

lemma roomCheck_elem:
  assumes "k \<in> set (roomCheck s excl b d r sem)"
  shows "\<exists>x c. (x, c) \<in> set (sessionsWithClass s) \<and> inSlot excl (blk_id b) d sem x
           \<and> cs_roomId x = r \<and> conflict_type k = CT_room
           \<and> conflict_relatedSessionId k = Some (cs_id x)"
proof (cases "find (\<lambda>(x, c). inSlot excl (blk_id b) d sem x \<and> cs_roomId x = r) (sessionsWithClass s)")
  case None
  with assms show ?thesis by (simp add: roomCheck_def)
next
  case (Some p)
  obtain x c where p: "p = (x, c)" by (cases p)
  from find_SomeD[OF Some] p have "(x, c) \<in> set (sessionsWithClass s)"
    "inSlot excl (blk_id b) d sem x" "cs_roomId x = r" by auto
  moreover from assms Some p have "conflict_type k = CT_room"
    "conflict_relatedSessionId k = Some (cs_id x)" by (auto simp: roomCheck_def)
  ultimately show ?thesis by blast
qed

lemma roomDutyCheck_elem:
  "k \<in> set (roomDutyCheck s b d r sem) \<Longrightarrow>
     conflict_type k = CT_room \<and> conflict_relatedSessionId k = None"
  by (auto simp: roomDutyCheck_def split: option.splits)

lemma homeroomCheck_elem:
  assumes "k \<in> set (homeroomCheck s excl g b d sem)"
  shows "\<exists>x c. (x, c) \<in> set (sessionsWithClass s) \<and> inSlot excl (blk_id b) d sem x
           \<and> cls_gradeId c = g \<and> truthy g \<and> conflict_type k = CT_homeroom
           \<and> conflict_relatedSessionId k = Some (cs_id x)"
proof (cases "find (\<lambda>(x, c). inSlot excl (blk_id b) d sem x \<and> cls_gradeId c = g) (sessionsWithClass s)")
  case None
  with assms show ?thesis by (cases "truthy g") (simp_all add: homeroomCheck_def)
next
  case (Some p)
  obtain x c where p: "p = (x, c)" by (cases p)
  from find_SomeD[OF Some] p have "(x, c) \<in> set (sessionsWithClass s)"
    "inSlot excl (blk_id b) d sem x" "cls_gradeId c = g" by auto
  moreover from assms Some p have "truthy g \<and> conflict_type k = CT_homeroom
    \<and> conflict_relatedSessionId k = Some (cs_id x)"
    by (cases "truthy g") (simp_all add: homeroomCheck_def)
  ultimately show ?thesis by blast
qed

lemma gradeExclusivityStep_elem:
  "k \<in> set (gradeExclusivityStep g b d (x, c)) \<Longrightarrow>
     conflict_type k = CT_homeroom \<and> conflict_relatedSessionId k = Some (cs_id x)
     \<and> (g = None) \<noteq> (cls_gradeId c = None)"
  by (auto simp: gradeExclusivityStep_def split: if_splits)

lemma gradeExclusivityCheck_elem:
  assumes "k \<in> set (gradeExclusivityCheck s excl g b d sem)"
  shows "\<exists>x c. (x, c) \<in> set (sessionsWithClass s) \<and> inSlot excl (blk_id b) d sem x
           \<and> (g = None) \<noteq> (cls_gradeId c = None) \<and> conflict_type k = CT_homeroom
           \<and> conflict_relatedSessionId k = Some (cs_id x)"
proof -
  from assms obtain p where p: "p \<in> set (sessionsWithClass s)"
    "case p of (x, c) \<Rightarrow> inSlot excl (blk_id b) d sem x"
    "k \<in> set (gradeExclusivityStep g b d p)"
    by (auto simp: gradeExclusivityCheck_def conflictingSessions_def)
  obtain x c where "p = (x, c)" by (cases p)
  with p gradeExclusivityStep_elem[of k g b d x c] show ?thesis by auto
qed

lemma teacherStep_elem:
  assumes "k \<in> set (teacherStep s i b d sem a)"
  shows "conflict_type k = CT_teacher \<and>
     (conflict_relatedSessionId k = None \<or>
      (\<exists>l x c. (l, x, c) \<in> set (linksWithSession s) \<and> cst_teacherId l = cst_teacherId a
          \<and> inSlot (Some i) (blk_id b) d sem x \<and> conflict_relatedSessionId k = Some (cs_id x)))"
proof (cases "find (\<lambda>(l, x, c). cst_teacherId l = cst_teacherId a
                   \<and> inSlot (Some i) (blk_id b) d sem x) (linksWithSession s)")
  case None
  with assms show ?thesis by (auto simp: teacherStep_def split: option.splits)
next
  case (Some p)
  obtain l x c where p: "p = (l, x, c)" by (cases p)
  from find_SomeD[OF Some] p have "(l, x, c) \<in> set (linksWithSession s)"
    "cst_teacherId l = cst_teacherId a" "inSlot (Some i) (blk_id b) d sem x" by auto
  moreover from assms Some p have "conflict_type k = CT_teacher"
    "conflict_relatedSessionId k = None \<or> conflict_relatedSessionId k = Some (cs_id x)"
    by (auto simp: teacherStep_def split: option.splits)
  ultimately show ?thesis by blast
qed

lemma teacherCheck_elem:
  assumes "k \<in> set (teacherCheck s i b d sem)"
  shows "conflict_type k = CT_teacher \<and>
     (conflict_relatedSessionId k = None \<or>
      (\<exists>a l x c. a \<in> set (sessionTeachers s i) \<and> (l, x, c) \<in> set (linksWithSession s)
          \<and> cst_teacherId l = cst_teacherId a
          \<and> inSlot (Some i) (blk_id b) d sem x \<and> conflict_relatedSessionId k = Some (cs_id x)))"
proof -
  from assms obtain a where a: "a \<in> set (sessionTeachers s i)" "k \<in> set (teacherStep s i b d sem a)"
    by (auto simp: teacherCheck_def)
  from teacherStep_elem[OF a(2)] a(1) show ?thesis by blast
qed

lemma inSlot_self: "inSlot (Some i) b d sem x \<Longrightarrow> cs_id x \<noteq> i"
  by (simp add: inSlot_def notSelf_def)

lemma duplicateCheck_elem:
  "x \<in> set (duplicateCheck s excl cid d sem) \<Longrightarrow>
     x \<in> set (classSessions s) \<and> notSelf excl x \<and> cs_dayOfWeek x = d \<and> cs_semesterId x = sem
     \<and> cs_classId x = cid"
  by (auto simp: duplicateCheck_def sessionsWithClass_iff)

lemma duplicateWarning_elem:
  "w \<in> set (duplicateWarning n d dups) \<Longrightarrow>
     \<exists>x \<in> set dups. warning_relatedSessionId w = Some (cs_id x)"
  by (cases dups) (auto simp: duplicateWarning_def)

subsection \<open>Validations that return a verdict\<close>

lemma validateSessionMove_Inr:
  assumes "validateSessionMove s input = Inr v"
  obtains session cls b where
     "classSession_findUnique s (vm_classSessionId input) = Some (session, cls)"
     "block_findUnique s (vm_targetBlockId input) = Some b"
     "1 \<le> vm_targetDayOfWeek input" "vm_targetDayOfWeek input \<le> 5"
     "v = \<lparr>valid = (moveConflicts s input cls b = []),
            conflicts = moveConflicts s input cls b,
            warnings = moveWarnings s input session cls\<rparr>"
proof (cases "classSession_findUnique s (vm_classSessionId input)")
  case None
  with assms show ?thesis by (simp add: validateSessionMove_def split: if_splits)
next
  case (Some p)
  obtain session cls where p: "p = (session, cls)" by (cases p)
  show ?thesis
  proof (cases "block_findUnique s (vm_targetBlockId input)")
    case None
    with assms Some p show ?thesis by (simp add: validateSessionMove_def split: if_splits)
  next
    case b: (Some b)
    from assms Some p b have d: "1 \<le> vm_targetDayOfWeek input" "vm_targetDayOfWeek input \<le> 5"
      by (simp_all add: validateSessionMove_def split: if_splits)
    from assms Some p b d have "v = \<lparr>valid = (moveConflicts s input cls b = []),
            conflicts = moveConflicts s input cls b,
            warnings = moveWarnings s input session cls\<rparr>"
      by (simp add: validateSessionMove_def)
    with that Some p b d show ?thesis by blast
  qed
qed

lemma validateSessionCreate_Inr:
  assumes "validateSessionCreate s input = Inr v"
  obtains cls b where
     "class_findUnique s (vc_classId input) = Some cls"
     "block_findUnique s (vc_targetBlockId input) = Some b"
     "1 \<le> vc_targetDayOfWeek input" "vc_targetDayOfWeek input \<le> 5"
     "v = \<lparr>valid = (createConflicts s input cls b = []),
            conflicts = createConflicts s input cls b,
            warnings = createWarnings s input cls\<rparr>"
proof (cases "class_findUnique s (vc_classId input)")
  case None
  with assms show ?thesis by (simp add: validateSessionCreate_def split: if_splits)
next
  case (Some cls)
  show ?thesis
  proof (cases "block_findUnique s (vc_targetBlockId input)")
    case None
    with assms Some show ?thesis by (simp add: validateSessionCreate_def split: if_splits)
  next
    case b: (Some b)
    from assms Some b have d: "1 \<le> vc_targetDayOfWeek input" "vc_targetDayOfWeek input \<le> 5"
      by (simp_all add: validateSessionCreate_def split: if_splits)
    from assms Some b d have "v = \<lparr>valid = (createConflicts s input cls b = []),
            conflicts = createConflicts s input cls b,
            warnings = createWarnings s input cls\<rparr>"
      by (simp add: validateSessionCreate_def)
    with that Some b d show ?thesis by blast
  qed
qed

lemma block_findUnique_id: "block_findUnique s i = Some b \<Longrightarrow> blk_id b = i"
  by (auto simp: block_findUnique_def dest: find_SomeD)

lemma classSession_findUnique_D:
  "classSession_findUnique s i = Some (x, c) \<Longrightarrow>
     cs_id x = i \<and> x \<in> set (classSessions s) \<and> class_findUnique s (cs_classId x) = Some c"
  by (auto simp: classSession_findUnique_def sessionsWithClass_iff dest!: find_SomeD)

subsection \<open>What the checks find\<close>

lemma gradeExclusivityCheck_complete:
  assumes "(x, c) \<in> set (conflictingSessions s excl (blk_id b) d sem)"
    and "(g = None) \<noteq> (cls_gradeId c = None)"
  shows "\<exists>k \<in> set (gradeExclusivityCheck s excl g b d sem).
           conflict_type k = CT_homeroom \<and> conflict_relatedSessionId k = Some (cs_id x)"
proof -
  from assms(2) have "\<exists>k \<in> set (gradeExclusivityStep g b d (x, c)).
      conflict_type k = CT_homeroom \<and> conflict_relatedSessionId k = Some (cs_id x)"
    by (auto simp: gradeExclusivityStep_def)
  with assms(1) show ?thesis
    unfolding gradeExclusivityCheck_def by (simp only: set_concat set_map) blast
qed

lemma homeroom_conflicts_shared:
  assumes "\<forall>(x, c) \<in> set (conflictingSessions s excl (blk_id b) d sem). cls_gradeId c = None"
  shows "homeroomCheck s excl None b d sem = []" "gradeExclusivityCheck s excl None b d sem = []"
proof -
  show "homeroomCheck s excl None b d sem = []"
    by (simp add: homeroomCheck_def truthy_def)
  have "gradeExclusivityStep None b d p = []"
    if "p \<in> set (conflictingSessions s excl (blk_id b) d sem)" for p
    using that assms by (cases p) (auto simp: gradeExclusivityStep_def)
  then show "gradeExclusivityCheck s excl None b d sem = []"
    by (simp add: gradeExclusivityCheck_def)
qed

lemma find_exists: "x \<in> set xs \<Longrightarrow> P x \<Longrightarrow> \<exists>y. find P xs = Some y"
  by (cases "find P xs") (auto simp: find_None_iff)

lemma duplicateCheck_raw:
  assumes "class_findUnique s cid \<noteq> None"
  shows "duplicateCheck s excl cid d sem =
     filter (\<lambda>x. notSelf excl x \<and> cs_dayOfWeek x = d \<and> cs_semesterId x = sem \<and> cs_classId x = cid)
       (classSessions s)"
proof -
  have "map fst (filter (\<lambda>(x, c). notSelf excl x \<and> cs_dayOfWeek x = d \<and> cs_semesterId x = sem
            \<and> cs_classId x = cid) (List.map_filter (withClass s) xs))
        = filter (\<lambda>x. notSelf excl x \<and> cs_dayOfWeek x = d \<and> cs_semesterId x = sem \<and> cs_classId x = cid) xs"
    for xs
    using assms by (induction xs) (auto simp: List.map_filter_simps withClass_def split: option.splits)
  then show ?thesis by (simp add: duplicateCheck_def sessionsWithClass_def)
qed

lemma classSession_findUnique_None:
  "\<forall>x \<in> set (classSessions s). cs_id x \<noteq> i \<Longrightarrow> classSession_findUnique s i = None"
  by (auto simp: classSession_findUnique_def find_None_iff sessionsWithClass_iff)

lemma teacherStep_session:
  assumes "(l, x, c) \<in> set (linksWithSession s)" "cst_teacherId l = cst_teacherId a"
    "inSlot (Some i) (blk_id b) d sem x"
  shows "\<exists>k \<in> set (teacherStep s i b d sem a). conflict_type k = CT_teacher \<and>
     (\<exists>l' x' c'. (l', x', c') \<in> set (linksWithSession s) \<and> cst_teacherId l' = cst_teacherId a
         \<and> inSlot (Some i) (blk_id b) d sem x' \<and> conflict_relatedSessionId k = Some (cs_id x'))"
proof -
  from assms obtain p where p: "find (\<lambda>(l, x, c). cst_teacherId l = cst_teacherId a
                   \<and> inSlot (Some i) (blk_id b) d sem x) (linksWithSession s) = Some p"
    using find_exists[of "(l, x, c)" "linksWithSession s" "\<lambda>(l, x, c). cst_teacherId l = cst_teacherId a
                   \<and> inSlot (Some i) (blk_id b) d sem x"] by auto
  obtain l' x' c' where q: "p = (l', x', c')" by (cases p)
  from find_SomeD[OF p] q have "(l', x', c') \<in> set (linksWithSession s)"
    "cst_teacherId l' = cst_teacherId a" "inSlot (Some i) (blk_id b) d sem x'" by auto
  moreover have "\<exists>k \<in> set (teacherStep s i b d sem a). conflict_type k = CT_teacher
      \<and> conflict_relatedSessionId k = Some (cs_id x')"
    unfolding teacherStep_def p q by simp
  ultimately show ?thesis by blast
qed

lemma teacherStep_duty:
  assumes "du \<in> set (duties s)" "dut_teacherId du = cst_teacherId a"
    "dut_blockId du = blk_id b" "dut_dayOfWeek du = d" "dut_semesterId du = sem"
  shows "\<exists>k \<in> set (teacherStep s i b d sem a). conflict_type k = CT_teacher \<and>
      conflict_relatedSessionId k = None"
proof -
  from assms obtain p where p: "find (\<lambda>d'. dut_teacherId d' = cst_teacherId a
                   \<and> dut_blockId d' = blk_id b \<and> dut_dayOfWeek d' = d
                   \<and> dut_semesterId d' = sem) (duties s) = Some p"
    using find_exists[of du "duties s" "\<lambda>d'. dut_teacherId d' = cst_teacherId a
                   \<and> dut_blockId d' = blk_id b \<and> dut_dayOfWeek d' = d
                   \<and> dut_semesterId d' = sem"] by auto
  show ?thesis unfolding teacherStep_def p by simp
qed

lemma createConflicts_no_teacher:
  "k \<in> set (createConflicts s ci cls b) \<Longrightarrow> conflict_type k \<noteq> CT_teacher"
  by (auto simp: createConflicts_def dest!: roomCheck_elem roomDutyCheck_elem homeroomCheck_elem
      gradeExclusivityCheck_elem)

subsection \<open>The transaction and its loop\<close>



text \<open>The identifier of a new row is not the identifier of a row of the table.\<close>

lemma fold_max_ge: "a \<le> fold max ids (a::int)"
  by (induction ids arbitrary: a) (auto intro: order_trans[OF max.cobounded2])

lemma fold_max_mem: "x \<in> set ids \<Longrightarrow> x \<le> fold max ids (a::int)"
proof (induction ids arbitrary: a)
  case Nil
  then show ?case by simp
next
  case (Cons y ys)
  show ?case
  proof (cases "x = y")
    case True
    have "y \<le> max y a" by simp
    also have "\<dots> \<le> fold max ys (max y a)" by (rule fold_max_ge)
    finally show ?thesis using True by simp
  next
    case False
    with Cons show ?thesis by simp
  qed
qed

lemma nextId_fresh: "nextId ids \<notin> set ids"
proof
  assume "nextId ids \<in> set ids"
  then have "nextId ids \<le> fold max ids 0" by (rule fold_max_mem)
  then show False by (simp add: nextId_def)
qed

text \<open>What a write that succeeds, and an iteration that does not throw, have done.\<close>

lemma classSession_create_D:
  assumes "classSession_create s cid b d r sem h = Inr (created, s')"
  shows "s' = s\<lparr>classSessions := classSessions s @ [created]\<rparr>"
    "cs_classId created = cid" "cs_id created \<notin> cs_id ` set (classSessions s)"
    "cs_id created = nextId (map cs_id (classSessions s))"
  using assms nextId_fresh[of "map cs_id (classSessions s)"]
  by (auto simp: classSession_create_def Let_def split: if_splits)

lemma classSession_update_D:
  assumes "classSession_update s i data = Inr (updated, s')"
  shows "s' = s\<lparr>classSessions := map (\<lambda>x. if cs_id x = i then data x else x) (classSessions s)\<rparr>"
    "\<exists>row \<in> set (classSessions s). cs_id row = i \<and> updated = data row"
  using assms
  by (auto simp: classSession_update_def split: option.splits if_splits dest!: find_SomeD)

lemma truthy_the: "truthy x \<Longrightarrow> x = Some (the x)"
  by (cases x) (auto simp: truthy_def)

lemma applyCreate_Inr:
  assumes "applyCreate change s = (Inr ro, s')"
  shows "(ro = None \<and> s' = s \<and> (\<exists>cid. ch_classId change = Some cid \<and> class_findUnique s cid = None))
       \<or> (\<exists>cid created. ch_classId change = Some cid \<and> class_findUnique s cid \<noteq> None
            \<and> ro = Some \<lparr>res_type = Ch_create, res_id = cs_id created\<rparr>
            \<and> s' = s\<lparr>classSessions := classSessions s @ [created]\<rparr>
            \<and> cs_classId created = cid \<and> cs_id created \<notin> cs_id ` set (classSessions s))"
proof -
  from assms have t: "truthy (ch_classId change)"
    by (auto simp: applyCreate_def split: if_splits)
  then obtain cid where cid: "ch_classId change = Some cid" by (cases "ch_classId change") (auto simp: truthy_def)
  show ?thesis
  proof (cases "class_findUnique s cid")
    case None
    with assms cid show ?thesis by (auto simp: applyCreate_def split: if_splits)
  next
    case (Some cls)
    with assms cid obtain created where
      "classSession_create s cid (the (ch_blockId change)) (the (ch_dayOfWeek change))
         (the (ch_roomId change)) (the (ch_semesterId change)) (ch_homeroomId change) = Inr (created, s')"
      "ro = Some \<lparr>res_type = Ch_create, res_id = cs_id created\<rparr>"
      by (auto simp: applyCreate_def split: if_splits option.splits sum.splits prod.splits)
    with classSession_create_D[OF this(1)] Some cid
    have "ch_classId change = Some cid \<and> class_findUnique s cid \<noteq> None
            \<and> ro = Some \<lparr>res_type = Ch_create, res_id = cs_id created\<rparr>
            \<and> s' = s\<lparr>classSessions := classSessions s @ [created]\<rparr>
            \<and> cs_classId created = cid \<and> cs_id created \<notin> cs_id ` set (classSessions s)"
      by simp
    then show ?thesis by blast
  qed
qed

lemma applyMove_Inr:
  assumes "applyMove change s = (Inr ro, s')"
  shows "\<exists>b d r session cls. ch_blockId change = Some b \<and> ch_dayOfWeek change = Some d
           \<and> ch_roomId change = Some r
           \<and> classSession_findUnique s (ch_sessionId change) = Some (session, cls)
           \<and> gradeConflict s (Some (ch_sessionId change)) (cls_gradeId cls) b d (cs_semesterId session) = None
           \<and> ro = Some \<lparr>res_type = Ch_move, res_id = ch_sessionId change\<rparr>
           \<and> s' = s\<lparr>classSessions :=
                 map (\<lambda>x. if cs_id x = ch_sessionId change
                           then x\<lparr>cs_blockId := b, cs_dayOfWeek := d, cs_roomId := r\<rparr> else x)
                   (classSessions s)\<rparr>"
proof -
  from assms have t: "truthy (ch_blockId change)" "truthy (ch_dayOfWeek change)" "truthy (ch_roomId change)"
    by (auto simp: applyMove_def split: if_splits)
  then obtain b d r where f: "ch_blockId change = Some b" "ch_dayOfWeek change = Some d"
    "ch_roomId change = Some r"
    by (metis truthy_the)
  from assms f obtain session cls where sc:
    "classSession_findUnique s (ch_sessionId change) = Some (session, cls)"
    by (cases "classSession_findUnique s (ch_sessionId change)")
      (auto simp: applyMove_def split: if_splits)
  from assms f sc have g: "gradeConflict s (Some (ch_sessionId change)) (cls_gradeId cls) b d
      (cs_semesterId session) = None"
    by (auto simp: applyMove_def split: if_splits option.splits)
  from assms f sc g obtain updated where u:
    "classSession_update s (ch_sessionId change)
        (\<lambda>row. row\<lparr>cs_blockId := b, cs_dayOfWeek := d, cs_roomId := r\<rparr>) = Inr (updated, s')"
    "ro = Some \<lparr>res_type = Ch_move, res_id = cs_id updated\<rparr>"
    by (auto simp: applyMove_def split: if_splits sum.splits)
  from classSession_update_D[OF u(1)] have "cs_id updated = ch_sessionId change"
    "s' = s\<lparr>classSessions :=
                 map (\<lambda>x. if cs_id x = ch_sessionId change
                           then x\<lparr>cs_blockId := b, cs_dayOfWeek := d, cs_roomId := r\<rparr> else x)
                   (classSessions s)\<rparr>"
    by auto
  with f sc g u show ?thesis by simp
qed

lemma applyUpdateRoom_Inr:
  assumes "applyUpdateRoom change s = (Inr ro, s')"
  shows "\<exists>r. ch_roomId change = Some r
           \<and> ro = Some \<lparr>res_type = Ch_update_room, res_id = ch_sessionId change\<rparr>
           \<and> s' = s\<lparr>classSessions :=
                 map (\<lambda>x. if cs_id x = ch_sessionId change then x\<lparr>cs_roomId := r\<rparr> else x)
                   (classSessions s)\<rparr>"
proof -
  from assms have "truthy (ch_roomId change)"
    by (auto simp: applyUpdateRoom_def split: if_splits)
  then obtain r where f: "ch_roomId change = Some r" by (metis truthy_the)
  from assms f obtain updated where u:
    "classSession_update s (ch_sessionId change) (\<lambda>row. row\<lparr>cs_roomId := r\<rparr>) = Inr (updated, s')"
    "ro = Some \<lparr>res_type = Ch_update_room, res_id = cs_id updated\<rparr>"
    by (auto simp: applyUpdateRoom_def split: if_splits sum.splits)
  from classSession_update_D[OF u(1)] have "cs_id updated = ch_sessionId change"
    "s' = s\<lparr>classSessions :=
                 map (\<lambda>x. if cs_id x = ch_sessionId change then x\<lparr>cs_roomId := r\<rparr> else x)
                   (classSessions s)\<rparr>"
    by auto
  with f u show ?thesis by simp
qed

lemma applyUpdateTeacher_Inr:
  assumes "applyUpdateTeacher change s = (Inr ro, s')"
  shows "\<exists>t. ch_teacherId change = Some t
           \<and> ro = Some \<lparr>res_type = Ch_update_teacher, res_id = ch_sessionId change\<rparr>
           \<and> s' = s\<lparr>classSessionTeachers :=
                 filter (\<lambda>l. cst_classSessionId l \<noteq> ch_sessionId change) (classSessionTeachers s)
                 @ [\<lparr>cst_id = nextId (map cst_id
                        (filter (\<lambda>l. cst_classSessionId l \<noteq> ch_sessionId change)
                           (classSessionTeachers s))),
                     cst_classSessionId = ch_sessionId change, cst_teacherId = t,
                     cst_role = ''Primary''\<rparr>]\<rparr>"
proof -
  from assms have "truthy (ch_teacherId change)"
    by (auto simp: applyUpdateTeacher_def split: if_splits)
  then obtain t where f: "ch_teacherId change = Some t" by (metis truthy_the)
  from assms f show ?thesis
    by (auto simp: applyUpdateTeacher_def Let_def classSessionTeacher_create_def
        classSessionTeacher_deleteMany_def split: if_splits sum.splits)
qed

lemma skipsChange_classes: "classes s = classes s0 \<Longrightarrow> skipsChange s c = skipsChange s0 c"
  by (auto simp: skipsChange_def class_findUnique_def split: option.splits)

lemma pairs_map:
  assumes "\<And>x. cs_id (f x) = cs_id x \<and> cs_classId (f x) = cs_classId x"
  shows "(\<lambda>x. (cs_id x, cs_classId x)) ` set (map f xs) = (\<lambda>x. (cs_id x, cs_classId x)) ` set xs"
proof -
  have "map (\<lambda>x. (cs_id x, cs_classId x)) (map f xs) = map (\<lambda>x. (cs_id x, cs_classId x)) xs"
    using assms by (induction xs) auto
  then have "set (map (\<lambda>x. (cs_id x, cs_classId x)) (map f xs)) = set (map (\<lambda>x. (cs_id x, cs_classId x)) xs)"
    by simp
  then show ?thesis by (simp only: set_map)
qed

lemma move_ignores_semester:
  "applyMove (change\<lparr>ch_semesterId := sem\<rparr>) s = applyMove change s"
  by (simp add: applyMove_def cong: option.case_cong sum.case_cong prod.case_cong if_cong)

lemma applyChange_Inr:
  assumes "applyChange change s = (Inr ro, s')"
  shows "classes s' = classes s"
    and "(\<lambda>x. (cs_id x, cs_classId x)) ` set (classSessions s)
           \<subseteq> (\<lambda>x. (cs_id x, cs_classId x)) ` set (classSessions s')"
    and "ro = None \<longrightarrow> skipsChange s change"
    and "\<forall>r. ro = Some r \<longrightarrow> \<not> skipsChange s change \<and> res_type r = ch_type change
            \<and> (if ch_type change = Ch_create
                then res_id r \<notin> cs_id ` set (classSessions s)
                     \<and> (\<exists>x \<in> set (classSessions s'). cs_id x = res_id r
                            \<and> ch_classId change = Some (cs_classId x))
                else res_id r = ch_sessionId change)"
proof -
  have frame: "classes s' = classes s
    \<and> (\<lambda>x. (cs_id x, cs_classId x)) ` set (classSessions s)
           \<subseteq> (\<lambda>x. (cs_id x, cs_classId x)) ` set (classSessions s')
    \<and> (ro = None \<longrightarrow> skipsChange s change)
    \<and> (\<forall>r. ro = Some r \<longrightarrow> \<not> skipsChange s change \<and> res_type r = ch_type change
            \<and> (if ch_type change = Ch_create
                then res_id r \<notin> cs_id ` set (classSessions s)
                     \<and> (\<exists>x \<in> set (classSessions s'). cs_id x = res_id r
                            \<and> ch_classId change = Some (cs_classId x))
                else res_id r = ch_sessionId change))"
  proof (cases "ch_type change")
    case Ch_create
    with assms have "applyCreate change s = (Inr ro, s')" by (simp add: applyChange_def)
    from applyCreate_Inr[OF this] Ch_create show ?thesis
      by (elim disjE exE conjE) (auto simp: skipsChange_def)
  next
    case Ch_move
    with assms have "applyMove change s = (Inr ro, s')" by (simp add: applyChange_def)
    from applyMove_Inr[OF this] obtain b d r where
      ro: "ro = Some \<lparr>res_type = Ch_move, res_id = ch_sessionId change\<rparr>"
      and s': "s' = s\<lparr>classSessions :=
                 map (\<lambda>x. if cs_id x = ch_sessionId change
                           then x\<lparr>cs_blockId := b, cs_dayOfWeek := d, cs_roomId := r\<rparr> else x)
                   (classSessions s)\<rparr>"
      by blast
    have "(\<lambda>x. (cs_id x, cs_classId x)) ` set (classSessions s')
        = (\<lambda>x. (cs_id x, cs_classId x)) ` set (classSessions s)"
    proof -
      have "classSessions s' = map (\<lambda>x. if cs_id x = ch_sessionId change
                           then x\<lparr>cs_blockId := b, cs_dayOfWeek := d, cs_roomId := r\<rparr> else x)
                   (classSessions s)" unfolding s' by simp
      then show ?thesis by (simp only:) (rule pairs_map, simp)
    qed
    with ro s' Ch_move show ?thesis by (simp add: skipsChange_def)
  next
    case Ch_update_room
    with assms have "applyUpdateRoom change s = (Inr ro, s')" by (simp add: applyChange_def)
    from applyUpdateRoom_Inr[OF this] obtain r where
      ro: "ro = Some \<lparr>res_type = Ch_update_room, res_id = ch_sessionId change\<rparr>"
      and s': "s' = s\<lparr>classSessions :=
                 map (\<lambda>x. if cs_id x = ch_sessionId change then x\<lparr>cs_roomId := r\<rparr> else x)
                   (classSessions s)\<rparr>"
      by blast
    have "(\<lambda>x. (cs_id x, cs_classId x)) ` set (classSessions s')
        = (\<lambda>x. (cs_id x, cs_classId x)) ` set (classSessions s)"
    proof -
      have "classSessions s' = map (\<lambda>x. if cs_id x = ch_sessionId change then x\<lparr>cs_roomId := r\<rparr> else x)
                   (classSessions s)" unfolding s' by simp
      then show ?thesis by (simp only:) (rule pairs_map, simp)
    qed
    with ro s' Ch_update_room show ?thesis by (simp add: skipsChange_def)
  next
    case Ch_update_teacher
    with assms have "applyUpdateTeacher change s = (Inr ro, s')" by (simp add: applyChange_def)
    from applyUpdateTeacher_Inr[OF this] Ch_update_teacher show ?thesis
      by (elim exE conjE) (auto simp: skipsChange_def)
  qed
  then show "classes s' = classes s"
    and "(\<lambda>x. (cs_id x, cs_classId x)) ` set (classSessions s)
           \<subseteq> (\<lambda>x. (cs_id x, cs_classId x)) ` set (classSessions s')"
    and "ro = None \<longrightarrow> skipsChange s change"
    and "\<forall>r. ro = Some r \<longrightarrow> \<not> skipsChange s change \<and> res_type r = ch_type change
            \<and> (if ch_type change = Ch_create
                then res_id r \<notin> cs_id ` set (classSessions s)
                     \<and> (\<exists>x \<in> set (classSessions s'). cs_id x = res_id r
                            \<and> ch_classId change = Some (cs_classId x))
                else res_id r = ch_sessionId change)"
    by blast+
qed

text \<open>
  The loop leaves the classes alone and keeps every session, with its id and its class;
  its results are those of the iterations, in order.
\<close>

lemma runChanges_mono:
  "runChanges cs acc s = (Inr rs, s') \<Longrightarrow>
     classes s' = classes s
     \<and> (\<lambda>x. (cs_id x, cs_classId x)) ` set (classSessions s)
           \<subseteq> (\<lambda>x. (cs_id x, cs_classId x)) ` set (classSessions s')"
proof (induction cs arbitrary: acc s)
  case Nil
  then show ?case by simp
next
  case (Cons c cs)
  from Cons.prems obtain ro s1 where a: "applyChange c s = (Inr ro, s1)"
    by (auto split: prod.splits sum.splits)
  with Cons.prems obtain acc' where r: "runChanges cs acc' s1 = (Inr rs, s')"
    by (cases ro) auto
  from Cons.IH[OF r] applyChange_Inr(1)[OF a] have "classes s' = classes s" by simp
  moreover from Cons.IH[OF r]
  have "(\<lambda>x. (cs_id x, cs_classId x)) ` set (classSessions s1)
           \<subseteq> (\<lambda>x. (cs_id x, cs_classId x)) ` set (classSessions s')"
    by simp
  with applyChange_Inr(2)[OF a]
  have "(\<lambda>x. (cs_id x, cs_classId x)) ` set (classSessions s)
           \<subseteq> (\<lambda>x. (cs_id x, cs_classId x)) ` set (classSessions s')"
    by (rule order_trans)
  ultimately show ?case by simp
qed

lemma runChanges_results:
  assumes "runChanges cs acc s = (Inr rs, s')" "classes s = classes s0"
    "cs_id ` set (classSessions s0) \<subseteq> cs_id ` set (classSessions s)"
  shows "\<exists>rs'. rs = acc @ rs' \<and>
     list_all2 (\<lambda>change r. res_type r = ch_type change
            \<and> (if ch_type change = Ch_create
                then res_id r \<notin> cs_id ` set (classSessions s0)
                     \<and> (\<exists>x \<in> set (classSessions s'). cs_id x = res_id r
                            \<and> ch_classId change = Some (cs_classId x))
                else res_id r = ch_sessionId change))
       (filter (\<lambda>change. \<not> skipsChange s0 change) cs) rs'"
  using assms
proof (induction cs arbitrary: acc s)
  case Nil
  then show ?case by simp
next
  case (Cons c cs)
  from Cons.prems(1) obtain ro s1 where a: "applyChange c s = (Inr ro, s1)"
    by (auto split: prod.splits sum.splits)
  note st = applyChange_Inr[OF a]
  have ids: "cs_id ` set (classSessions s) \<subseteq> cs_id ` set (classSessions s1)"
  proof
    fix i assume "i \<in> cs_id ` set (classSessions s)"
    then obtain x where "x \<in> set (classSessions s)" "i = cs_id x" by auto
    then have "(i, cs_classId x) \<in> (\<lambda>x. (cs_id x, cs_classId x)) ` set (classSessions s)" by auto
    with st(2) have "(i, cs_classId x) \<in> (\<lambda>x. (cs_id x, cs_classId x)) ` set (classSessions s1)"
      by blast
    then show "i \<in> cs_id ` set (classSessions s1)" by auto
  qed
  have c1: "classes s1 = classes s0" using st(1) Cons.prems(2) by simp
  have i1: "cs_id ` set (classSessions s0) \<subseteq> cs_id ` set (classSessions s1)"
    using ids Cons.prems(3) by blast
  show ?case
  proof (cases ro)
    case None
    with a Cons.prems(1) have r: "runChanges cs acc s1 = (Inr rs, s')" by simp
    from st(3) None have "skipsChange s0 c"
      using skipsChange_classes[OF Cons.prems(2)] by simp
    with Cons.IH[OF r c1 i1] show ?thesis by simp
  next
    case (Some r0)
    with a Cons.prems(1) have r: "runChanges cs (acc @ [r0]) s1 = (Inr rs, s')" by simp
    from Cons.IH[OF r c1 i1] obtain rs' where rs': "rs = (acc @ [r0]) @ rs'"
      "list_all2 (\<lambda>change r. res_type r = ch_type change
            \<and> (if ch_type change = Ch_create
                then res_id r \<notin> cs_id ` set (classSessions s0)
                     \<and> (\<exists>x \<in> set (classSessions s'). cs_id x = res_id r
                            \<and> ch_classId change = Some (cs_classId x))
                else res_id r = ch_sessionId change))
       (filter (\<lambda>change. \<not> skipsChange s0 change) cs) rs'"
      by blast
    from st(4) Some have h: "\<not> skipsChange s c" "res_type r0 = ch_type c"
      "if ch_type c = Ch_create
                then res_id r0 \<notin> cs_id ` set (classSessions s)
                     \<and> (\<exists>x \<in> set (classSessions s1). cs_id x = res_id r0
                            \<and> ch_classId c = Some (cs_classId x))
                else res_id r0 = ch_sessionId c"
      by auto
    from h(1) have ns: "\<not> skipsChange s0 c"
      using skipsChange_classes[OF Cons.prems(2)] by simp
    have head: "if ch_type c = Ch_create
                then res_id r0 \<notin> cs_id ` set (classSessions s0)
                     \<and> (\<exists>x \<in> set (classSessions s'). cs_id x = res_id r0
                            \<and> ch_classId c = Some (cs_classId x))
                else res_id r0 = ch_sessionId c"
    proof (cases "ch_type c = Ch_create")
      case True
      with h(3) obtain x where x: "res_id r0 \<notin> cs_id ` set (classSessions s)"
        "x \<in> set (classSessions s1)" "cs_id x = res_id r0" "ch_classId c = Some (cs_classId x)"
        by auto
      from x(2) have "(cs_id x, cs_classId x) \<in> (\<lambda>x. (cs_id x, cs_classId x)) ` set (classSessions s1)"
        by auto
      with runChanges_mono[OF r] obtain y where "y \<in> set (classSessions s')"
        "cs_id y = cs_id x" "cs_classId y = cs_classId x" by auto
      with x Cons.prems(3) True show ?thesis by auto
    next
      case False
      with h(3) show ?thesis by simp
    qed
    from rs' ns h(2) head show ?thesis
      by (intro exI[of _ "r0 # rs'"]) simp
  qed
qed

text \<open>
  The sessions that the loop adds, in the order of their insertion, with the results of
  the creations.
\<close>

lemma sessionKey_map:
  assumes "\<And>x. sessionKey (f x) = sessionKey x"
  shows "map sessionKey (map f xs) = map sessionKey xs"
  using assms by (induction xs) auto

lemma ids_sessionKey: "fst ` set (map sessionKey xs) = cs_id ` set xs"
  by (induction xs) (auto simp: sessionKey_def)

lemma applyCreate_keys:
  assumes "applyCreate change s = (Inr (Some r), s')"
  shows "res_id r \<notin> cs_id ` set (classSessions s)
     \<and> (\<exists>cid sem. ch_classId change = Some cid \<and> ch_semesterId change = Some sem
           \<and> map sessionKey (classSessions s')
               = map sessionKey (classSessions s) @ [(res_id r, cid, sem, ch_homeroomId change)])"
proof -
  from assms have t: "truthy (ch_classId change)" "truthy (ch_semesterId change)"
    by (auto simp: applyCreate_def split: if_splits)
  then obtain cid sem where f: "ch_classId change = Some cid" "ch_semesterId change = Some sem"
    by (metis truthy_the)
  from assms f obtain created where c:
    "classSession_create s cid (the (ch_blockId change)) (the (ch_dayOfWeek change))
         (the (ch_roomId change)) sem (ch_homeroomId change) = Inr (created, s')"
    "r = \<lparr>res_type = Ch_create, res_id = cs_id created\<rparr>"
    by (auto simp: applyCreate_def split: if_splits option.splits sum.splits prod.splits)
  from c(1) have k: "sessionKey created = (cs_id created, cid, sem, ch_homeroomId change)"
    by (auto simp: classSession_create_def Let_def sessionKey_def split: if_splits)
  from classSession_create_D[OF c(1)] k c(2) f show ?thesis by simp
qed

lemma applyChange_keys:
  assumes "applyChange change s = (Inr ro, s')"
  shows "\<exists>e. map sessionKey (classSessions s') = map sessionKey (classSessions s) @ e
     \<and> (ro = None \<longrightarrow> e = [])
     \<and> (\<forall>r. ro = Some r \<longrightarrow>
          (if ch_type change = Ch_create
           then res_id r \<notin> cs_id ` set (classSessions s)
                \<and> (\<exists>cid sem. ch_classId change = Some cid \<and> ch_semesterId change = Some sem
                      \<and> e = [(res_id r, cid, sem, ch_homeroomId change)])
           else e = []))"
proof (cases "ch_type change")
  case Ch_create
  with assms have a: "applyCreate change s = (Inr ro, s')" by (simp add: applyChange_def)
  show ?thesis
  proof (cases ro)
    case None
    with applyCreate_Inr[OF a] have "s' = s" by auto
    with None show ?thesis by simp
  next
    case (Some r)
    from applyCreate_keys[OF a[unfolded Some]] Some Ch_create show ?thesis by auto
  qed
next
  case Ch_move
  with assms have "applyMove change s = (Inr ro, s')" by (simp add: applyChange_def)
  from applyMove_Inr[OF this] obtain b d r where
    s': "s' = s\<lparr>classSessions :=
                 map (\<lambda>x. if cs_id x = ch_sessionId change
                           then x\<lparr>cs_blockId := b, cs_dayOfWeek := d, cs_roomId := r\<rparr> else x)
                   (classSessions s)\<rparr>"
    by blast
  have "classSessions s' = map (\<lambda>x. if cs_id x = ch_sessionId change
                           then x\<lparr>cs_blockId := b, cs_dayOfWeek := d, cs_roomId := r\<rparr> else x)
                   (classSessions s)" unfolding s' by simp
  then have "map sessionKey (classSessions s') = map sessionKey (classSessions s)"
    by (simp only:) (rule sessionKey_map, simp add: sessionKey_def)
  with Ch_move show ?thesis by simp
next
  case Ch_update_room
  with assms have "applyUpdateRoom change s = (Inr ro, s')" by (simp add: applyChange_def)
  from applyUpdateRoom_Inr[OF this] obtain r where
    s': "s' = s\<lparr>classSessions :=
                 map (\<lambda>x. if cs_id x = ch_sessionId change then x\<lparr>cs_roomId := r\<rparr> else x)
                   (classSessions s)\<rparr>"
    by blast
  have "classSessions s' = map (\<lambda>x. if cs_id x = ch_sessionId change then x\<lparr>cs_roomId := r\<rparr> else x)
                   (classSessions s)" unfolding s' by simp
  then have "map sessionKey (classSessions s') = map sessionKey (classSessions s)"
    by (simp only:) (rule sessionKey_map, simp add: sessionKey_def)
  with Ch_update_room show ?thesis by simp
next
  case Ch_update_teacher
  with assms have "applyUpdateTeacher change s = (Inr ro, s')" by (simp add: applyChange_def)
  from applyUpdateTeacher_Inr[OF this] have "classSessions s' = classSessions s" by auto
  with Ch_update_teacher show ?thesis by simp
qed

lemma runChanges_keys:
  assumes "runChanges cs acc s = (Inr rs, s')"
  shows "\<exists>rs' ks. rs = acc @ rs'
     \<and> map sessionKey (classSessions s') = map sessionKey (classSessions s) @ ks
     \<and> (\<forall>k \<in> set ks. fst k \<notin> cs_id ` set (classSessions s))
     \<and> map fst ks = map res_id (filter (\<lambda>r. res_type r = Ch_create) rs')
     \<and> distinct (map fst ks)
     \<and> list_all2 (\<lambda>change k. ch_classId change = Some (fst (snd k))
                    \<and> ch_semesterId change = Some (fst (snd (snd k)))
                    \<and> ch_homeroomId change = snd (snd (snd k)))
         (filter (\<lambda>c. ch_type c = Ch_create \<and> \<not> skipsChange s c) cs) ks"
  using assms
proof (induction cs arbitrary: acc s)
  case Nil
  then show ?case by simp
next
  case (Cons c cs)
  from Cons.prems obtain ro s1 where a: "applyChange c s = (Inr ro, s1)"
    by (auto split: prod.splits sum.splits)
  note st = applyChange_Inr[OF a]
  from applyChange_keys[OF a] obtain e where
    e: "map sessionKey (classSessions s1) = map sessionKey (classSessions s) @ e"
    and eN: "ro = None \<longrightarrow> e = []"
    and eS: "\<forall>r. ro = Some r \<longrightarrow>
          (if ch_type c = Ch_create
           then res_id r \<notin> cs_id ` set (classSessions s)
                \<and> (\<exists>cid sem. ch_classId c = Some cid \<and> ch_semesterId c = Some sem
                      \<and> e = [(res_id r, cid, sem, ch_homeroomId c)])
           else e = [])"
    by blast
  have ids1: "cs_id ` set (classSessions s) \<subseteq> cs_id ` set (classSessions s1)"
  proof -
    have "fst ` set (map sessionKey (classSessions s))
        \<subseteq> fst ` set (map sessionKey (classSessions s1))"
      unfolding e by auto
    then show ?thesis by (simp only: ids_sessionKey)
  qed
  have sk: "skipsChange s1 = skipsChange s"
    using skipsChange_classes[OF st(1)] by (intro ext)
  have IH: "\<exists>rs' ks. rs = acc' @ rs'
     \<and> map sessionKey (classSessions s') = map sessionKey (classSessions s1) @ ks
     \<and> (\<forall>k \<in> set ks. fst k \<notin> cs_id ` set (classSessions s1))
     \<and> map fst ks = map res_id (filter (\<lambda>r. res_type r = Ch_create) rs')
     \<and> distinct (map fst ks)
     \<and> list_all2 (\<lambda>change k. ch_classId change = Some (fst (snd k))
                    \<and> ch_semesterId change = Some (fst (snd (snd k)))
                    \<and> ch_homeroomId change = snd (snd (snd k)))
         (filter (\<lambda>c. ch_type c = Ch_create \<and> \<not> skipsChange s c) cs) ks"
    if "runChanges cs acc' s1 = (Inr rs, s')" for acc'
    using Cons.IH[OF that] unfolding sk .
  show ?case
  proof (cases ro)
    case None
    with a Cons.prems have r: "runChanges cs acc s1 = (Inr rs, s')" by simp
    from IH[OF r] obtain rs' ks where h: "rs = acc @ rs'"
      "map sessionKey (classSessions s') = map sessionKey (classSessions s1) @ ks"
      "\<forall>k \<in> set ks. fst k \<notin> cs_id ` set (classSessions s1)"
      "map fst ks = map res_id (filter (\<lambda>r. res_type r = Ch_create) rs')"
      "distinct (map fst ks)"
      "list_all2 (\<lambda>change k. ch_classId change = Some (fst (snd k))
                    \<and> ch_semesterId change = Some (fst (snd (snd k)))
                    \<and> ch_homeroomId change = snd (snd (snd k)))
         (filter (\<lambda>c. ch_type c = Ch_create \<and> \<not> skipsChange s c) cs) ks"
      by blast
    from None eN have e0: "e = []" by simp
    from st(3) None have skc: "skipsChange s c" by simp
    from h(3) ids1 have fr: "\<forall>k \<in> set ks. fst k \<notin> cs_id ` set (classSessions s)" by blast
    from h e e0 skc fr show ?thesis by (intro exI[of _ rs'] exI[of _ ks]) simp
  next
    case (Some r0)
    with a Cons.prems have r: "runChanges cs (acc @ [r0]) s1 = (Inr rs, s')" by simp
    from IH[OF r] obtain rs' ks where h: "rs = (acc @ [r0]) @ rs'"
      "map sessionKey (classSessions s') = map sessionKey (classSessions s1) @ ks"
      "\<forall>k \<in> set ks. fst k \<notin> cs_id ` set (classSessions s1)"
      "map fst ks = map res_id (filter (\<lambda>r. res_type r = Ch_create) rs')"
      "distinct (map fst ks)"
      "list_all2 (\<lambda>change k. ch_classId change = Some (fst (snd k))
                    \<and> ch_semesterId change = Some (fst (snd (snd k)))
                    \<and> ch_homeroomId change = snd (snd (snd k)))
         (filter (\<lambda>c. ch_type c = Ch_create \<and> \<not> skipsChange s c) cs) ks"
      by blast
    from st(4) Some have ns: "\<not> skipsChange s c" and ty: "res_type r0 = ch_type c" by auto
    from h(3) ids1 have fr: "\<forall>k \<in> set ks. fst k \<notin> cs_id ` set (classSessions s)" by blast
    show ?thesis
    proof (cases "ch_type c = Ch_create")
      case True
      with eS Some obtain cid sem where n: "res_id r0 \<notin> cs_id ` set (classSessions s)"
        "ch_classId c = Some cid" "ch_semesterId c = Some sem"
        "e = [(res_id r0, cid, sem, ch_homeroomId c)]"
        by auto
      have "res_id r0 \<in> fst ` set (map sessionKey (classSessions s1))"
        unfolding e n(4) by simp
      then have "res_id r0 \<in> cs_id ` set (classSessions s1)"
        by (simp only: ids_sessionKey)
      with h(3) have nin: "res_id r0 \<notin> fst ` set ks" by auto
      then have nin2: "res_id r0 \<notin> set (map res_id (filter (\<lambda>r. res_type r = Ch_create) rs'))"
        unfolding h(4)[symmetric] by simp
      from h e n fr ns ty True nin2 show ?thesis
        by (intro exI[of _ "r0 # rs'"] exI[of _ "(res_id r0, cid, sem, ch_homeroomId c) # ks"]) simp
    next
      case False
      with eS Some have e0: "e = []" by simp
      from h e e0 fr ns ty False show ?thesis
        by (intro exI[of _ "r0 # rs'"] exI[of _ ks]) simp
    qed
  qed
qed

subsection \<open>When a check reports nothing\<close>

lemma find_case_empty:
  assumes "\<And>y. h y \<noteq> []"
  shows "((case find P xs of None \<Rightarrow> [] | Some y \<Rightarrow> h y) = []) \<longleftrightarrow> \<not> (\<exists>x \<in> set xs. P x)"
proof (cases "find P xs")
  case None
  then have "\<not> (\<exists>x \<in> set xs. P x)" by (simp add: find_None_iff)
  with None show ?thesis by simp
next
  case (Some y)
  from find_SomeD[OF Some] have "\<exists>x \<in> set xs. P x" by blast
  with Some assms show ?thesis by simp
qed

lemma conflictingSessions_iff:
  "(x, c) \<in> set (conflictingSessions s excl b d sem)
     \<longleftrightarrow> (x, c) \<in> set (sessionsWithClass s) \<and> inSlot excl b d sem x"
  by (auto simp: conflictingSessions_def)

lemma roomCheck_empty_iff:
  "roomCheck s excl b d r sem = []
     \<longleftrightarrow> \<not> (\<exists>(x, c) \<in> set (conflictingSessions s excl (blk_id b) d sem). cs_roomId x = r)"
proof -
  have "roomCheck s excl b d r sem = []
      \<longleftrightarrow> \<not> (\<exists>p \<in> set (sessionsWithClass s).
              (\<lambda>(x, c). inSlot excl (blk_id b) d sem x \<and> cs_roomId x = r) p)"
    unfolding roomCheck_def by (rule find_case_empty) (simp split: prod.splits)
  then show ?thesis by (auto simp: conflictingSessions_iff)
qed

lemma roomDutyCheck_empty_iff:
  "roomDutyCheck s b d r sem = []
     \<longleftrightarrow> \<not> (\<exists>du \<in> set (duties s). dut_blockId du = blk_id b \<and> dut_dayOfWeek du = d
              \<and> dut_roomId du = r \<and> dut_semesterId du = sem)"
  unfolding roomDutyCheck_def by (rule find_case_empty) simp

lemma homeroomCheck_empty_iff:
  "homeroomCheck s excl g b d sem = []
     \<longleftrightarrow> \<not> (truthy g \<and> (\<exists>(x, c) \<in> set (conflictingSessions s excl (blk_id b) d sem).
                            cls_gradeId c = g))"
proof (cases "truthy g")
  case False
  then show ?thesis by (simp add: homeroomCheck_def)
next
  case True
  have "(case find (\<lambda>(x, c). inSlot excl (blk_id b) d sem x \<and> cls_gradeId c = g)
              (sessionsWithClass s) of
           None \<Rightarrow> []
         | Some (homeroomConflict, c) \<Rightarrow>
             [\<lparr>conflict_type = CT_homeroom,
               conflict_message = ''Students would have a conflict: '' @ cls_name c
                 @ '' is scheduled at the same time in '' @ blk_name b @ '' (''
                 @ dayName d @ '').'',
               conflict_relatedSessionId = Some (cs_id homeroomConflict)\<rparr>]) = []
      \<longleftrightarrow> \<not> (\<exists>p \<in> set (sessionsWithClass s).
              (\<lambda>(x, c). inSlot excl (blk_id b) d sem x \<and> cls_gradeId c = g) p)"
    by (rule find_case_empty) (simp split: prod.splits)
  with True show ?thesis unfolding homeroomCheck_def by (auto simp: conflictingSessions_iff)
qed

lemma gradeExclusivityCheck_empty_iff:
  "gradeExclusivityCheck s excl g b d sem = []
     \<longleftrightarrow> \<not> (\<exists>(x, c) \<in> set (conflictingSessions s excl (blk_id b) d sem).
              (g = None) \<noteq> (cls_gradeId c = None))"
proof -
  have "gradeExclusivityStep g b d p = [] \<longleftrightarrow> \<not> (case p of (x, c) \<Rightarrow> (g = None) \<noteq> (cls_gradeId c = None))"
    for p
    by (cases p) (auto simp: gradeExclusivityStep_def)
  then show ?thesis
    by (auto simp: gradeExclusivityCheck_def)
qed

lemma teacherStep_empty_iff:
  "teacherStep s i b d sem a = []
     \<longleftrightarrow> \<not> ((\<exists>(l, x, c) \<in> set (linksWithSession s). cst_teacherId l = cst_teacherId a
                  \<and> inSlot (Some i) (blk_id b) d sem x)
            \<or> (\<exists>du \<in> set (duties s). dut_teacherId du = cst_teacherId a
                  \<and> dut_blockId du = blk_id b \<and> dut_dayOfWeek du = d \<and> dut_semesterId du = sem))"
proof -
  have 1: "(case find (\<lambda>(l, x, c). cst_teacherId l = cst_teacherId a
                   \<and> inSlot (Some i) (blk_id b) d sem x) (linksWithSession s) of
        None \<Rightarrow> []
      | Some (teacherConflict, x, c) \<Rightarrow>
          [\<lparr>conflict_type = CT_teacher,
            conflict_message = teacherName s (cst_teacherId a)
              @ '' is already teaching '' @ cls_name c @ '' in '' @ blk_name b
              @ '' ('' @ dayName d @ '').'',
            conflict_relatedSessionId = Some (cs_id x)\<rparr>]) = []
     \<longleftrightarrow> \<not> (\<exists>(l, x, c) \<in> set (linksWithSession s). cst_teacherId l = cst_teacherId a
                  \<and> inSlot (Some i) (blk_id b) d sem x)"
    by (rule find_case_empty) (simp split: prod.splits)
  have 2: "(case find (\<lambda>d'. dut_teacherId d' = cst_teacherId a
                   \<and> dut_blockId d' = blk_id b \<and> dut_dayOfWeek d' = d
                   \<and> dut_semesterId d' = sem) (duties s) of
        None \<Rightarrow> []
      | Some dutyConflict \<Rightarrow>
          [\<lparr>conflict_type = CT_teacher,
            conflict_message = teacherName s (cst_teacherId a) @ '' has ''
              @ dutyTypeName s (dut_dutyTypeId dutyConflict) @ '' duty in ''
              @ blk_name b @ '' ('' @ dayName d @ '').'',
            conflict_relatedSessionId = None\<rparr>]) = []
     \<longleftrightarrow> \<not> (\<exists>du \<in> set (duties s). dut_teacherId du = cst_teacherId a
                  \<and> dut_blockId du = blk_id b \<and> dut_dayOfWeek du = d \<and> dut_semesterId du = sem)"
    by (rule find_case_empty) simp
  show ?thesis unfolding teacherStep_def append_is_Nil_conv 1 2 by blast
qed

lemma teacherCheck_empty_iff:
  "teacherCheck s i b d sem = []
     \<longleftrightarrow> \<not> (\<exists>a \<in> set (sessionTeachers s i).
             (\<exists>(l, x, c) \<in> set (linksWithSession s). cst_teacherId l = cst_teacherId a
                  \<and> inSlot (Some i) (blk_id b) d sem x)
            \<or> (\<exists>du \<in> set (duties s). dut_teacherId du = cst_teacherId a
                  \<and> dut_blockId du = blk_id b \<and> dut_dayOfWeek du = d \<and> dut_semesterId du = sem))"
  by (simp add: teacherCheck_def teacherStep_empty_iff)

lemma duplicateWarning_some:
  "dups \<noteq> [] \<Longrightarrow> \<exists>x \<in> set dups. duplicateWarning n d dups =
     [\<lparr>warning_type = WT_duplicate_class,
       warning_message = n @ '' is already scheduled '' @ showNat (length dups)
          @ '' time(s) on '' @ dayName d @ ''.'',
       warning_relatedSessionId = Some (cs_id x)\<rparr>]"
  by (cases dups) (simp_all add: duplicateWarning_def)

subsection \<open>The grade conflict check of a move\<close>

lemma gradeConflict_None_iff:
  "gradeConflict s excl g b d sem = None
     \<longleftrightarrow> \<not> (truthy g \<and> (\<exists>(x, c) \<in> set (conflictingSessions s excl b d sem). cls_gradeId c = g))"
proof (cases "truthy g")
  case False
  then show ?thesis by (simp add: gradeConflict_def)
next
  case True
  have "find (\<lambda>(x, c). inSlot excl b d sem x \<and> cls_gradeId c = g) (sessionsWithClass s) = None
      \<longleftrightarrow> \<not> (\<exists>(x, c) \<in> set (conflictingSessions s excl b d sem). cls_gradeId c = g)"
    unfolding find_None_iff by (fastforce simp: conflictingSessions_iff)
  with True show ?thesis by (simp add: gradeConflict_def)
qed

lemma applyMove_conflict:
  assumes "truthy (ch_blockId change)" "truthy (ch_dayOfWeek change)" "truthy (ch_roomId change)"
    "ch_sessionId change \<noteq> 0"
    "classSession_findUnique s (ch_sessionId change) = Some (session, cls)"
    "gradeConflict s (Some (ch_sessionId change)) (cls_gradeId cls) (the (ch_blockId change))
       (the (ch_dayOfWeek change)) (cs_semesterId session) \<noteq> None"
  shows "\<exists>m. applyMove change s = (Inl (TRPCError CONFLICT m), s)"
  using assms by (auto simp: applyMove_def gradeConflictError_def)

section \<open>Batch commit\<close>



text \<open>
  C4 (amended). When a batch commits, the returned list holds, in input order, one result
  for every change of the batch except the creations whose class does not exist, which
  are passed over without a result. Each result carries the type of its change and the id
  of the affected session. For a change that is not a creation this is the session id of
  the change. For the creations it is the id of the session that the creation has
  inserted: the sessions that the store has gained, taken in the order of their
  insertion, are one for each creation that was not passed over, in input order; each has
  the class, the semester and the homeroom of its creation, and the id in the result of
  its creation. The ids in the results of the creations are new to the store and differ
  from one another.
\<close>

theorem batch_results:
  assumes "batchSaveChanges changes s = (Inr results, s')"
  shows "list_all2 (\<lambda>change r. res_type r = ch_type change
            \<and> (if ch_type change = Ch_create
                then res_id r \<notin> cs_id ` set (classSessions s)
                     \<and> (\<exists>x \<in> set (classSessions s'). cs_id x = res_id r
                            \<and> ch_classId change = Some (cs_classId x))
                else res_id r = ch_sessionId change))
       (filter (\<lambda>change. \<not> skipsChange s change) changes) results
     \<and> map res_id (filter (\<lambda>r. res_type r = Ch_create) results)
         = map cs_id (filter (\<lambda>x. cs_id x \<notin> cs_id ` set (classSessions s)) (classSessions s'))
     \<and> list_all2 (\<lambda>change x. ch_classId change = Some (cs_classId x)
                    \<and> ch_semesterId change = Some (cs_semesterId x)
                    \<and> ch_homeroomId change = cs_homeroomId x)
         (filter (\<lambda>change. ch_type change = Ch_create \<and> \<not> skipsChange s change) changes)
         (filter (\<lambda>x. cs_id x \<notin> cs_id ` set (classSessions s)) (classSessions s'))
     \<and> distinct (map res_id (filter (\<lambda>r. res_type r = Ch_create) results))"
proof -
  let ?new = "filter (\<lambda>x. cs_id x \<notin> cs_id ` set (classSessions s)) (classSessions s')"
  from assms have run: "runChanges changes [] s = (Inr results, s')"
    by (auto simp: batchSaveChanges_def transaction_def split: if_splits prod.splits sum.splits)
  from runChanges_results[OF run, of s]
  have 1: "list_all2 (\<lambda>change r. res_type r = ch_type change
            \<and> (if ch_type change = Ch_create
                then res_id r \<notin> cs_id ` set (classSessions s)
                     \<and> (\<exists>x \<in> set (classSessions s'). cs_id x = res_id r
                            \<and> ch_classId change = Some (cs_classId x))
                else res_id r = ch_sessionId change))
       (filter (\<lambda>change. \<not> skipsChange s change) changes) results"
    by simp
  from runChanges_keys[OF run] obtain ks where
    k: "map sessionKey (classSessions s') = map sessionKey (classSessions s) @ ks"
    and fr: "\<forall>k \<in> set ks. fst k \<notin> cs_id ` set (classSessions s)"
    and ids: "map fst ks = map res_id (filter (\<lambda>r. res_type r = Ch_create) results)"
    and dk: "distinct (map fst ks)"
    and q: "list_all2 (\<lambda>change k. ch_classId change = Some (fst (snd k))
                    \<and> ch_semesterId change = Some (fst (snd (snd k)))
                    \<and> ch_homeroomId change = snd (snd (snd k)))
         (filter (\<lambda>c. ch_type c = Ch_create \<and> \<not> skipsChange s c) changes) ks"
    by auto
  have "map sessionKey ?new
      = filter (\<lambda>k. fst k \<notin> cs_id ` set (classSessions s)) (map sessionKey (classSessions s'))"
    by (simp add: filter_map comp_def sessionKey_def)
  also have "\<dots> = filter (\<lambda>k. fst k \<notin> cs_id ` set (classSessions s)) (map sessionKey (classSessions s))
      @ filter (\<lambda>k. fst k \<notin> cs_id ` set (classSessions s)) ks"
    unfolding k by simp
  also have "filter (\<lambda>k. fst k \<notin> cs_id ` set (classSessions s)) (map sessionKey (classSessions s)) = []"
    by (auto simp: filter_empty_conv sessionKey_def)
  also have "filter (\<lambda>k. fst k \<notin> cs_id ` set (classSessions s)) ks = ks"
    using fr by (simp add: filter_id_conv)
  finally have new: "map sessionKey ?new = ks" by simp
  have 2: "map res_id (filter (\<lambda>r. res_type r = Ch_create) results) = map cs_id ?new"
  proof -
    have "map cs_id ?new = map fst (map sessionKey ?new)"
      by (simp add: comp_def sessionKey_def)
    with new ids show ?thesis by simp
  qed
  from q have 3: "list_all2 (\<lambda>change x. ch_classId change = Some (cs_classId x)
                    \<and> ch_semesterId change = Some (cs_semesterId x)
                    \<and> ch_homeroomId change = cs_homeroomId x)
         (filter (\<lambda>change. ch_type change = Ch_create \<and> \<not> skipsChange s change) changes) ?new"
    unfolding new[symmetric] by (simp add: list_all2_map2 sessionKey_def)
  from dk have 4: "distinct (map res_id (filter (\<lambda>r. res_type r = Ch_create) results))"
    unfolding ids .
  from 1 2 3 4 show ?thesis by blast
qed

text \<open>
  On the sample schedule: six changes, of which the second creates a session of a class
  that does not exist and the first and the last create a session of the same class; the
  batch commits with five results, and the two new sessions have the ids 7 and 8 in this
  order.
\<close>

theorem batch_results_witness:
  "fst (batchSaveChanges [exCreateChem, exCreateMissingClass, exMove, exUpdateRoom, exUpdateTeacher,
          exCreateChemAgain] exStore)
     = Inr [\<lparr>res_type = Ch_create, res_id = 7\<rparr>, \<lparr>res_type = Ch_move, res_id = 5\<rparr>,
            \<lparr>res_type = Ch_update_room, res_id = 4\<rparr>, \<lparr>res_type = Ch_update_teacher, res_id = 2\<rparr>,
            \<lparr>res_type = Ch_create, res_id = 8\<rparr>]
   \<and> filter (\<lambda>change. \<not> skipsChange exStore change)
         [exCreateChem, exCreateMissingClass, exMove, exUpdateRoom, exUpdateTeacher,
          exCreateChemAgain]
     = [exCreateChem, exMove, exUpdateRoom, exUpdateTeacher, exCreateChemAgain]
   \<and> map sessionKey
         (filter (\<lambda>x. cs_id x \<notin> cs_id ` set (classSessions exStore))
            (classSessions (snd (batchSaveChanges
               [exCreateChem, exCreateMissingClass, exMove, exUpdateRoom, exUpdateTeacher,
                exCreateChemAgain] exStore))))
     = [(7, 6, 1, Some 1), (8, 6, 1, None)]
   \<and> list_all2 (\<lambda>change r. res_type r = ch_type change
            \<and> (if ch_type change = Ch_create
                then res_id r \<notin> cs_id ` set (classSessions exStore)
                     \<and> (\<exists>x \<in> set (classSessions (snd (batchSaveChanges
                              [exCreateChem, exCreateMissingClass, exMove, exUpdateRoom,
                               exUpdateTeacher, exCreateChemAgain] exStore))).
                            cs_id x = res_id r \<and> ch_classId change = Some (cs_classId x))
                else res_id r = ch_sessionId change))
       [exCreateChem, exMove, exUpdateRoom, exUpdateTeacher, exCreateChemAgain]
       [\<lparr>res_type = Ch_create, res_id = 7\<rparr>, \<lparr>res_type = Ch_move, res_id = 5\<rparr>,
        \<lparr>res_type = Ch_update_room, res_id = 4\<rparr>, \<lparr>res_type = Ch_update_teacher, res_id = 2\<rparr>,
        \<lparr>res_type = Ch_create, res_id = 8\<rparr>]
   \<and> map res_id (filter (\<lambda>r. res_type r = Ch_create)
         [\<lparr>res_type = Ch_create, res_id = 7\<rparr>, \<lparr>res_type = Ch_move, res_id = 5\<rparr>,
          \<lparr>res_type = Ch_update_room, res_id = 4\<rparr>, \<lparr>res_type = Ch_update_teacher, res_id = 2\<rparr>,
          \<lparr>res_type = Ch_create, res_id = 8\<rparr>])
     = map cs_id (filter (\<lambda>x. cs_id x \<notin> cs_id ` set (classSessions exStore))
         (classSessions (snd (batchSaveChanges
            [exCreateChem, exCreateMissingClass, exMove, exUpdateRoom, exUpdateTeacher,
             exCreateChemAgain] exStore))))
   \<and> list_all2 (\<lambda>change x. ch_classId change = Some (cs_classId x)
                    \<and> ch_semesterId change = Some (cs_semesterId x)
                    \<and> ch_homeroomId change = cs_homeroomId x)
         (filter (\<lambda>change. ch_type change = Ch_create \<and> \<not> skipsChange exStore change)
            [exCreateChem, exCreateMissingClass, exMove, exUpdateRoom, exUpdateTeacher,
             exCreateChemAgain])
         (filter (\<lambda>x. cs_id x \<notin> cs_id ` set (classSessions exStore))
            (classSessions (snd (batchSaveChanges
               [exCreateChem, exCreateMissingClass, exMove, exUpdateRoom, exUpdateTeacher,
                exCreateChemAgain] exStore))))
   \<and> distinct (map res_id (filter (\<lambda>r. res_type r = Ch_create)
         [\<lparr>res_type = Ch_create, res_id = 7\<rparr>, \<lparr>res_type = Ch_move, res_id = 5\<rparr>,
          \<lparr>res_type = Ch_update_room, res_id = 4\<rparr>, \<lparr>res_type = Ch_update_teacher, res_id = 2\<rparr>,
          \<lparr>res_type = Ch_create, res_id = 8\<rparr>]))"
proof -
  let ?batch = "[exCreateChem, exCreateMissingClass, exMove, exUpdateRoom, exUpdateTeacher,
    exCreateChemAgain]"
  let ?results = "[\<lparr>res_type = Ch_create, res_id = 7\<rparr>, \<lparr>res_type = Ch_move, res_id = 5\<rparr>,
            \<lparr>res_type = Ch_update_room, res_id = 4\<rparr>, \<lparr>res_type = Ch_update_teacher, res_id = 2\<rparr>,
            \<lparr>res_type = Ch_create, res_id = 8\<rparr>]"
  have r: "fst (batchSaveChanges ?batch exStore) = Inr ?results" by code_simp
  have f: "filter (\<lambda>change. \<not> skipsChange exStore change) ?batch
     = [exCreateChem, exMove, exUpdateRoom, exUpdateTeacher, exCreateChemAgain]" by code_simp
  have n: "map sessionKey
         (filter (\<lambda>x. cs_id x \<notin> cs_id ` set (classSessions exStore))
            (classSessions (snd (batchSaveChanges ?batch exStore))))
     = [(7, 6, 1, Some 1), (8, 6, 1, None)]" by code_simp
  from r have "batchSaveChanges ?batch exStore = (Inr ?results, snd (batchSaveChanges ?batch exStore))"
    by (metis prod.collapse)
  note br = batch_results[OF this]
  have l: "list_all2 (\<lambda>change r. res_type r = ch_type change
            \<and> (if ch_type change = Ch_create
                then res_id r \<notin> cs_id ` set (classSessions exStore)
                     \<and> (\<exists>x \<in> set (classSessions (snd (batchSaveChanges ?batch exStore))).
                            cs_id x = res_id r \<and> ch_classId change = Some (cs_classId x))
                else res_id r = ch_sessionId change))
       [exCreateChem, exMove, exUpdateRoom, exUpdateTeacher, exCreateChemAgain] ?results"
    using br[THEN conjunct1] unfolding f .
  note i = br[THEN conjunct2, THEN conjunct1]
  note q = br[THEN conjunct2, THEN conjunct2, THEN conjunct1]
  note dd = br[THEN conjunct2, THEN conjunct2, THEN conjunct2]
  show ?thesis
    by (rule conjI[OF r conjI[OF f conjI[OF n conjI[OF l conjI[OF i conjI[OF q dd]]]]]])
qed

text \<open>
  C4 as stated fails: a batch of one creation whose class does not exist commits and
  returns no result.
\<close>

theorem skipped_create_has_no_result:
  "class_findUnique exStore 99 = None
   \<and> batchSaveChanges [exCreateMissingClass] exStore = (Inr [], exStore)"
  by code_simp

text \<open>
  C9. An \<^verbatim>\<open>update_teacher\<close> change that is applied leaves the session with exactly one
  teacher link, the teacher of the change with the role Primary, whatever links the
  session had before; the links of the other sessions and the other tables are as before.
\<close>

theorem update_teacher_replaces_links:
  assumes "ch_type change = Ch_update_teacher" "applyChange change s = (Inr ro, s')"
  shows "\<exists>t. ch_teacherId change = Some t
     \<and> map (\<lambda>l. (cst_teacherId l, cst_role l)) (sessionTeachers s' (ch_sessionId change))
         = [(t, ''Primary'')]
     \<and> filter (\<lambda>l. cst_classSessionId l \<noteq> ch_sessionId change) (classSessionTeachers s')
         = filter (\<lambda>l. cst_classSessionId l \<noteq> ch_sessionId change) (classSessionTeachers s)
     \<and> s'\<lparr>classSessionTeachers := classSessionTeachers s\<rparr> = s"
proof -
  from assms have "applyUpdateTeacher change s = (Inr ro, s')" by (simp add: applyChange_def)
  from applyUpdateTeacher_Inr[OF this] show ?thesis
    by (elim exE conjE) (simp add: sessionTeachers_def)
qed

text \<open>
  On the sample schedule: session 2 has a primary and an assistant teacher; after the
  change it has the one primary teacher T2.
\<close>

theorem update_teacher_replaces_links_witness:
  "ch_type exUpdateTeacher = Ch_update_teacher
   \<and> fst (applyChange exUpdateTeacher exStore)
       = Inr (Some \<lparr>res_type = Ch_update_teacher, res_id = 2\<rparr>)
   \<and> map (\<lambda>l. (cst_teacherId l, cst_role l)) (sessionTeachers exStore 2)
       = [(1, ''Primary''), (2, ''Assistant'')]
   \<and> map (\<lambda>l. (cst_teacherId l, cst_role l))
         (sessionTeachers (snd (applyChange exUpdateTeacher exStore)) 2)
       = [(2, ''Primary'')]"
proof -
  have t: "ch_type exUpdateTeacher = Ch_update_teacher" by code_simp
  have r: "fst (applyChange exUpdateTeacher exStore)
       = Inr (Some \<lparr>res_type = Ch_update_teacher, res_id = 2\<rparr>)" by code_simp
  have b: "map (\<lambda>l. (cst_teacherId l, cst_role l)) (sessionTeachers exStore 2)
       = [(1, ''Primary''), (2, ''Assistant'')]" by code_simp
  have i: "ch_sessionId exUpdateTeacher = 2" "ch_teacherId exUpdateTeacher = Some 2"
    by code_simp+
  from r have "applyChange exUpdateTeacher exStore
      = (Inr (Some \<lparr>res_type = Ch_update_teacher, res_id = 2\<rparr>),
         snd (applyChange exUpdateTeacher exStore))"
    by (metis prod.collapse)
  from update_teacher_replaces_links[OF t this] i
  have "map (\<lambda>l. (cst_teacherId l, cst_role l))
         (sessionTeachers (snd (applyChange exUpdateTeacher exStore)) 2)
       = [(2, ''Primary'')]"
    by auto
  with t r b show ?thesis by simp
qed

text \<open>
  C10. A \<^verbatim>\<open>move\<close> change that is applied changes the block, the day and the room of the
  session with the id of the change, and nothing else: every session keeps its id, class,
  semester and homeroom, the teacher links and the other tables are as before. The grade
  conflict check is made in the semester of the session itself. A move is applied only
  when, for a class with a grade, no other session of the target block and day in the
  session's own semester has a class of that grade; when there is one, the move is
  refused with CONFLICT and the store is as before. The \<^verbatim>\<open>semesterId\<close> of the change is
  not read: whatever it is, the outcome is the same.
\<close>

theorem batch_move_frame:
  "(ch_type change = Ch_move \<and> applyChange change s = (Inr ro, s') \<longrightarrow>
      (\<exists>b d r session cls. ch_blockId change = Some b \<and> ch_dayOfWeek change = Some d
            \<and> ch_roomId change = Some r
            \<and> classSession_findUnique s (ch_sessionId change) = Some (session, cls)
            \<and> \<not> (truthy (cls_gradeId cls)
                  \<and> (\<exists>(x, c) \<in> set (conflictingSessions s (Some (ch_sessionId change)) b d
                                        (cs_semesterId session)).
                        cls_gradeId c = cls_gradeId cls))
            \<and> s' = s\<lparr>classSessions :=
                  map (\<lambda>x. if cs_id x = ch_sessionId change
                            then x\<lparr>cs_blockId := b, cs_dayOfWeek := d, cs_roomId := r\<rparr> else x)
                    (classSessions s)\<rparr>)
     \<and> map (\<lambda>x. (cs_id x, cs_classId x, cs_semesterId x, cs_homeroomId x)) (classSessions s')
         = map (\<lambda>x. (cs_id x, cs_classId x, cs_semesterId x, cs_homeroomId x)) (classSessions s)
     \<and> classSessionTeachers s' = classSessionTeachers s)
   \<and> (ch_type change = Ch_move \<and> ch_blockId change = Some b \<and> b \<noteq> 0
        \<and> ch_dayOfWeek change = Some d \<and> d \<noteq> 0 \<and> ch_roomId change = Some r \<and> r \<noteq> 0
        \<and> ch_sessionId change \<noteq> 0
        \<and> classSession_findUnique s (ch_sessionId change) = Some (session, cls)
        \<and> truthy (cls_gradeId cls)
        \<and> (\<exists>(x, c) \<in> set (conflictingSessions s (Some (ch_sessionId change)) b d
                              (cs_semesterId session)).
              cls_gradeId c = cls_gradeId cls) \<longrightarrow>
      (\<exists>m. applyChange change s = (Inl (TRPCError CONFLICT m), s)))
   \<and> (ch_type change = Ch_move \<longrightarrow>
        applyChange (change\<lparr>ch_semesterId := sem\<rparr>) s = applyChange change s)"
proof (intro conjI impI)
  assume h: "ch_type change = Ch_move \<and> applyChange change s = (Inr ro, s')"
  then have m: "applyMove change s = (Inr ro, s')" by (auto simp: applyChange_def)
  from applyMove_Inr[OF m] obtain b d r session cls where f: "ch_blockId change = Some b"
    "ch_dayOfWeek change = Some d" "ch_roomId change = Some r"
    "classSession_findUnique s (ch_sessionId change) = Some (session, cls)"
    "gradeConflict s (Some (ch_sessionId change)) (cls_gradeId cls) b d (cs_semesterId session) = None"
    "s' = s\<lparr>classSessions :=
                  map (\<lambda>x. if cs_id x = ch_sessionId change
                            then x\<lparr>cs_blockId := b, cs_dayOfWeek := d, cs_roomId := r\<rparr> else x)
                    (classSessions s)\<rparr>"
    by blast
  from f(5) have g: "\<not> (truthy (cls_gradeId cls)
                  \<and> (\<exists>(x, c) \<in> set (conflictingSessions s (Some (ch_sessionId change)) b d
                                        (cs_semesterId session)).
                        cls_gradeId c = cls_gradeId cls))"
    by (simp add: gradeConflict_None_iff)
  from f(1-4) g f(6)
  show "\<exists>b d r session cls. ch_blockId change = Some b \<and> ch_dayOfWeek change = Some d
            \<and> ch_roomId change = Some r
            \<and> classSession_findUnique s (ch_sessionId change) = Some (session, cls)
            \<and> \<not> (truthy (cls_gradeId cls)
                  \<and> (\<exists>(x, c) \<in> set (conflictingSessions s (Some (ch_sessionId change)) b d
                                        (cs_semesterId session)).
                        cls_gradeId c = cls_gradeId cls))
            \<and> s' = s\<lparr>classSessions :=
                  map (\<lambda>x. if cs_id x = ch_sessionId change
                            then x\<lparr>cs_blockId := b, cs_dayOfWeek := d, cs_roomId := r\<rparr> else x)
                    (classSessions s)\<rparr>"
    by blast
  show "map (\<lambda>x. (cs_id x, cs_classId x, cs_semesterId x, cs_homeroomId x)) (classSessions s')
         = map (\<lambda>x. (cs_id x, cs_classId x, cs_semesterId x, cs_homeroomId x)) (classSessions s)"
    unfolding f(6) by (simp add: comp_def if_distrib cong: if_cong)
  show "classSessionTeachers s' = classSessionTeachers s" unfolding f(6) by simp
next
  assume h: "ch_type change = Ch_move \<and> ch_blockId change = Some b \<and> b \<noteq> 0
        \<and> ch_dayOfWeek change = Some d \<and> d \<noteq> 0 \<and> ch_roomId change = Some r \<and> r \<noteq> 0
        \<and> ch_sessionId change \<noteq> 0
        \<and> classSession_findUnique s (ch_sessionId change) = Some (session, cls)
        \<and> truthy (cls_gradeId cls)
        \<and> (\<exists>(x, c) \<in> set (conflictingSessions s (Some (ch_sessionId change)) b d
                              (cs_semesterId session)).
              cls_gradeId c = cls_gradeId cls)"
  then have "gradeConflict s (Some (ch_sessionId change)) (cls_gradeId cls) b d
       (cs_semesterId session) \<noteq> None"
    by (simp add: gradeConflict_None_iff)
  with h have "\<exists>m. applyMove change s = (Inl (TRPCError CONFLICT m), s)"
    by (intro applyMove_conflict[of change s session cls]) (simp_all add: truthy_def)
  with h show "\<exists>m. applyChange change s = (Inl (TRPCError CONFLICT m), s)"
    by (auto simp: applyChange_def)
next
  assume "ch_type change = Ch_move"
  then show "applyChange (change\<lparr>ch_semesterId := sem\<rparr>) s = applyChange change s"
    by (simp add: applyChange_def move_ignores_semester)
qed

text \<open>
  On the sample schedule: session 5 (Math10, Grade 10) moves to B2 on Monday in R1. Its
  move to B1 on Monday, where sessions 1 and 6 are of classes of Grade 10 in the same
  semester, is refused, though the change names another semester.
\<close>

theorem batch_move_frame_witness:
  "ch_type exMove = Ch_move
   \<and> fst (applyChange exMove exStore) = Inr (Some \<lparr>res_type = Ch_move, res_id = 5\<rparr>)
   \<and> snd (applyChange exMove exStore)
       = exStore\<lparr>classSessions :=
           map (\<lambda>x. if cs_id x = 5 then x\<lparr>cs_blockId := 2, cs_dayOfWeek := 1, cs_roomId := 1\<rparr>
                     else x) (classSessions exStore)\<rparr>
   \<and> classSessionTeachers (snd (applyChange exMove exStore)) = classSessionTeachers exStore
   \<and> applyChange (exMove\<lparr>ch_semesterId := Some 77\<rparr>) exStore = applyChange exMove exStore
   \<and> map (\<lambda>(x, c). (cs_id x, cs_semesterId x, cls_gradeId c))
         (conflictingSessions exStore (Some 5) 1 1 1)
       = [(1, 1, Some 1), (6, 1, Some 1)]
   \<and> (\<exists>m. applyChange exMoveRefused exStore = (Inl (TRPCError CONFLICT m), exStore))
   \<and> applyChange exMoveRefused exStore
       = (Inl (TRPCError CONFLICT
            ''Grade Conflict: Grade Grade 10 already has Math10 scheduled at this time.''),
          exStore)"
proof -
  let ?s5 = "\<lparr>cs_id = 5, cs_classId = 1, cs_blockId = 3, cs_dayOfWeek = 4, cs_roomId = 1,
          cs_semesterId = 1, cs_homeroomId = Some 1\<rparr>"
  let ?math = "\<lparr>cls_id = 1, cls_name = ''Math10'', cls_gradeId = Some 1\<rparr>"
  have t: "ch_type exMove = Ch_move" by code_simp
  have r: "fst (applyChange exMove exStore) = Inr (Some \<lparr>res_type = Ch_move, res_id = 5\<rparr>)"
    by code_simp
  have i: "ch_sessionId exMove = 5" "ch_blockId exMove = Some 2" "ch_dayOfWeek exMove = Some 1"
    "ch_roomId exMove = Some 1"
    by code_simp+
  from r have a: "applyChange exMove exStore
      = (Inr (Some \<lparr>res_type = Ch_move, res_id = 5\<rparr>), snd (applyChange exMove exStore))"
    by (metis prod.collapse)
  note frame = batch_move_frame[where change = exMove and s = exStore
      and ro = "Some \<lparr>res_type = Ch_move, res_id = 5\<rparr>"
      and s' = "snd (applyChange exMove exStore)" and sem = "Some 77",
      THEN conjunct1, THEN mp, OF conjI[OF t a]]
  from frame i have 1: "snd (applyChange exMove exStore)
       = exStore\<lparr>classSessions :=
           map (\<lambda>x. if cs_id x = 5 then x\<lparr>cs_blockId := 2, cs_dayOfWeek := 1, cs_roomId := 1\<rparr>
                     else x) (classSessions exStore)\<rparr>"
    by auto
  from frame have 2: "classSessionTeachers (snd (applyChange exMove exStore))
      = classSessionTeachers exStore"
    by blast
  note 3 = batch_move_frame[where change = exMove and s = exStore and sem = "Some 77",
      THEN conjunct2, THEN conjunct2, THEN mp, OF t]
  have o: "map (\<lambda>(x, c). (cs_id x, cs_semesterId x, cls_gradeId c))
         (conflictingSessions exStore (Some 5) 1 1 1)
       = [(1, 1, Some 1), (6, 1, Some 1)]"
    by code_simp
  have h: "ch_type exMoveRefused = Ch_move \<and> ch_blockId exMoveRefused = Some 1 \<and> (1::int) \<noteq> 0
        \<and> ch_dayOfWeek exMoveRefused = Some 1 \<and> (1::int) \<noteq> 0
        \<and> ch_roomId exMoveRefused = Some 3 \<and> (3::int) \<noteq> 0
        \<and> ch_sessionId exMoveRefused \<noteq> 0
        \<and> classSession_findUnique exStore (ch_sessionId exMoveRefused) = Some (?s5, ?math)
        \<and> truthy (cls_gradeId ?math)
        \<and> (\<exists>(x, c) \<in> set (conflictingSessions exStore (Some (ch_sessionId exMoveRefused)) 1 1
                              (cs_semesterId ?s5)).
              cls_gradeId c = cls_gradeId ?math)"
    by code_simp
  note 4 = batch_move_frame[where change = exMoveRefused and s = exStore,
      THEN conjunct2, THEN conjunct1, THEN mp, OF h]
  have 5: "applyChange exMoveRefused exStore
       = (Inl (TRPCError CONFLICT
            ''Grade Conflict: Grade Grade 10 already has Math10 scheduled at this time.''),
          exStore)"
    by code_simp
  show ?thesis
    by (rule conjI[OF t conjI[OF r conjI[OF 1 conjI[OF 2 conjI[OF 3 conjI[OF o conjI[OF 4 5]]]]]]])
qed

section \<open>Dry-run validation\<close>

text \<open>
  C7. In every verdict of \<open>validateSessionCreate\<close> and of \<open>validateSessionMove\<close>,
  \<open>valid\<close> is true exactly when the list of conflicts is empty; the warnings play no part.
\<close>

theorem valid_iff_no_conflicts:
  assumes "validateSessionCreate s ci = Inr v \<or> validateSessionMove s mi = Inr v"
  shows "valid v = (conflicts v = [])"
  using assms
  by (auto elim!: validateSessionCreate_Inr validateSessionMove_Inr)

text \<open>
  On the sample schedule: creating a session of Math10 in B3 on Monday has a warning and
  no conflict, and is valid; moving session 1 onto its own slot has a conflict, and is
  not.
\<close>

theorem valid_iff_no_conflicts_witness:
  "validateSessionCreate exStore
       \<lparr>vc_classId = 1, vc_targetBlockId = 3, vc_targetDayOfWeek = 1, vc_targetRoomId = 2,
        vc_semesterId = 1\<rparr>
     = Inr \<lparr>valid = True, conflicts = [],
            warnings = [\<lparr>warning_type = WT_duplicate_class,
                         warning_message = ''Math10 is already scheduled 1 time(s) on Monday.'',
                         warning_relatedSessionId = Some 1\<rparr>]\<rparr>
   \<and> validateSessionMove exStore
       \<lparr>vm_classSessionId = 1, vm_targetBlockId = 1, vm_targetDayOfWeek = 1, vm_targetRoomId = 1,
        vm_semesterId = 1\<rparr>
     = Inr \<lparr>valid = False,
            conflicts = [\<lparr>conflict_type = CT_homeroom,
                          conflict_message = ''Students would have a conflict: Bio10 is scheduled at the same time in B1 (Monday).'',
                          conflict_relatedSessionId = Some 6\<rparr>],
            warnings = []\<rparr>"
proof -
  let ?ci = "\<lparr>vc_classId = 1, vc_targetBlockId = 3, vc_targetDayOfWeek = 1, vc_targetRoomId = 2,
        vc_semesterId = 1\<rparr>"
  let ?mi = "\<lparr>vm_classSessionId = 1, vm_targetBlockId = 1, vm_targetDayOfWeek = 1,
        vm_targetRoomId = 1, vm_semesterId = 1\<rparr>"
  let ?v = "\<lparr>valid = True, conflicts = [],
            warnings = [\<lparr>warning_type = WT_duplicate_class,
                         warning_message = ''Math10 is already scheduled 1 time(s) on Monday.'',
                         warning_relatedSessionId = Some 1\<rparr>]\<rparr>"
  let ?v' = "\<lparr>valid = False,
            conflicts = [\<lparr>conflict_type = CT_homeroom,
                          conflict_message = ''Students would have a conflict: Bio10 is scheduled at the same time in B1 (Monday).'',
                          conflict_relatedSessionId = Some 6\<rparr>],
            warnings = []\<rparr>"
  have c: "validateSessionCreate exStore ?ci = Inr ?v" by code_simp
  have m: "validateSessionMove exStore ?mi = Inr ?v'" by code_simp
  from valid_iff_no_conflicts[of exStore ?ci ?v ?mi] c
  have "valid ?v = (conflicts ?v = [])" by blast
  moreover from valid_iff_no_conflicts[of exStore ?ci ?v' ?mi] m
  have "valid ?v' = (conflicts ?v' = [])" by blast
  ultimately show ?thesis using c m by simp
qed

text \<open>
  C5. Self-exclusion: in the verdict on a move of a session, whatever the target slot and
  so also when it is the session's own, no conflict and no warning names the moved
  session as the related session.
\<close>

theorem move_self_exclusion:
  assumes "validateSessionMove s input = Inr v"
  shows "(\<forall>k \<in> set (conflicts v). conflict_relatedSessionId k \<noteq> Some (vm_classSessionId input))
       \<and> (\<forall>w \<in> set (warnings v). warning_relatedSessionId w \<noteq> Some (vm_classSessionId input))"
proof -
  let ?i = "vm_classSessionId input"
  from assms obtain session cls b where
    v: "v = \<lparr>valid = (moveConflicts s input cls b = []),
            conflicts = moveConflicts s input cls b,
            warnings = moveWarnings s input session cls\<rparr>"
    by (rule validateSessionMove_Inr)
  have "conflict_relatedSessionId k \<noteq> Some ?i" if "k \<in> set (conflicts v)" for k
    using that unfolding v
    by (auto simp: moveConflicts_def dest!: teacherCheck_elem roomCheck_elem roomDutyCheck_elem homeroomCheck_elem
        gradeExclusivityCheck_elem dest: inSlot_self)
  moreover have "warning_relatedSessionId w \<noteq> Some ?i" if "w \<in> set (warnings v)" for w
    using that unfolding v
    by (auto simp: moveWarnings_def dest!: duplicateWarning_elem duplicateCheck_elem simp: notSelf_def)
  ultimately show ?thesis by blast
qed

text \<open>
  On the sample schedule: session 1 (Math10) moved onto its own slot. The one conflict is
  with session 6 (Bio10, same grade, same block and day).
\<close>

theorem move_self_exclusion_witness:
  "validateSessionMove exStore
       \<lparr>vm_classSessionId = 1, vm_targetBlockId = 1, vm_targetDayOfWeek = 1, vm_targetRoomId = 1,
        vm_semesterId = 1\<rparr>
     = Inr \<lparr>valid = False,
            conflicts = [\<lparr>conflict_type = CT_homeroom,
                          conflict_message = ''Students would have a conflict: Bio10 is scheduled at the same time in B1 (Monday).'',
                          conflict_relatedSessionId = Some 6\<rparr>],
            warnings = []\<rparr>
   \<and> list_all (\<lambda>k. conflict_relatedSessionId k \<noteq> Some 1)
         [\<lparr>conflict_type = CT_homeroom,
           conflict_message = ''Students would have a conflict: Bio10 is scheduled at the same time in B1 (Monday).'',
           conflict_relatedSessionId = Some 6\<rparr>]"
proof -
  let ?mi = "\<lparr>vm_classSessionId = 1, vm_targetBlockId = 1, vm_targetDayOfWeek = 1,
        vm_targetRoomId = 1, vm_semesterId = 1\<rparr>"
  let ?v = "\<lparr>valid = False,
            conflicts = [\<lparr>conflict_type = CT_homeroom,
                          conflict_message = ''Students would have a conflict: Bio10 is scheduled at the same time in B1 (Monday).'',
                          conflict_relatedSessionId = Some 6\<rparr>],
            warnings = []\<rparr>"
  have m: "validateSessionMove exStore ?mi = Inr ?v" by code_simp
  from move_self_exclusion[OF m] m show ?thesis by (simp add: list_all_iff)
qed

text \<open>
  C6. Shared against grade-specific. \<open>others\<close> are the sessions of the target block, day
  and semester, whatever their room (for a move, without the moved session). Placing a
  shared class gives a homeroom conflict for every one of them whose class is
  grade-specific, and placing a grade-specific class gives one for every one of them
  whose class is shared, each naming its session. Placing a shared class when all of them
  are of shared classes gives no homeroom conflict.
\<close>

theorem grade_exclusivity:
  assumes "validateSessionCreate s ci = Inr v
             \<and> class_findUnique s (vc_classId ci) = Some cls
             \<and> others = conflictingSessions s None (vc_targetBlockId ci)
                          (vc_targetDayOfWeek ci) (vc_semesterId ci)
         \<or> validateSessionMove s mi = Inr v
             \<and> classSession_findUnique s (vm_classSessionId mi) = Some (session, cls)
             \<and> others = conflictingSessions s (Some (vm_classSessionId mi)) (vm_targetBlockId mi)
                          (vm_targetDayOfWeek mi) (vm_semesterId mi)"
  shows "(\<forall>(x, c) \<in> set others. (cls_gradeId cls = None) \<noteq> (cls_gradeId c = None) \<longrightarrow>
            (\<exists>k \<in> set (conflicts v). conflict_type k = CT_homeroom
                \<and> conflict_relatedSessionId k = Some (cs_id x)))
       \<and> (cls_gradeId cls = None \<and> (\<forall>(x, c) \<in> set others. cls_gradeId c = None) \<longrightarrow>
            (\<forall>k \<in> set (conflicts v). conflict_type k \<noteq> CT_homeroom))"
  using assms
proof (elim disjE conjE)
  assume v: "validateSessionCreate s ci = Inr v"
    and c: "class_findUnique s (vc_classId ci) = Some cls"
    and o: "others = conflictingSessions s None (vc_targetBlockId ci)
                          (vc_targetDayOfWeek ci) (vc_semesterId ci)"
  from v c obtain b where b: "block_findUnique s (vc_targetBlockId ci) = Some b"
    and cv: "conflicts v = createConflicts s ci cls b"
    by (auto elim!: validateSessionCreate_Inr)
  note bid = block_findUnique_id[OF b]
  have 1: "\<exists>k \<in> set (conflicts v). conflict_type k = CT_homeroom
                \<and> conflict_relatedSessionId k = Some (cs_id x)"
    if "(x, c) \<in> set others" "(cls_gradeId cls = None) \<noteq> (cls_gradeId c = None)" for x c
    using gradeExclusivityCheck_complete[of x c s None b "vc_targetDayOfWeek ci" "vc_semesterId ci" "cls_gradeId cls"]
      that o bid cv
    by (auto simp: createConflicts_def)
  have 2: "\<forall>k \<in> set (conflicts v). conflict_type k \<noteq> CT_homeroom"
    if "cls_gradeId cls = None" "\<forall>(x, c) \<in> set others. cls_gradeId c = None"
    using homeroom_conflicts_shared[of s None b "vc_targetDayOfWeek ci" "vc_semesterId ci"] that o bid cv
    by (auto simp: createConflicts_def dest!: roomCheck_elem roomDutyCheck_elem)
  from 1 2 show ?thesis by blast
next
  assume v: "validateSessionMove s mi = Inr v"
    and c: "classSession_findUnique s (vm_classSessionId mi) = Some (session, cls)"
    and o: "others = conflictingSessions s (Some (vm_classSessionId mi)) (vm_targetBlockId mi)
                          (vm_targetDayOfWeek mi) (vm_semesterId mi)"
  from v c obtain b where b: "block_findUnique s (vm_targetBlockId mi) = Some b"
    and cv: "conflicts v = moveConflicts s mi cls b"
    by (auto elim!: validateSessionMove_Inr)
  note bid = block_findUnique_id[OF b]
  have 1: "\<exists>k \<in> set (conflicts v). conflict_type k = CT_homeroom
                \<and> conflict_relatedSessionId k = Some (cs_id x)"
    if "(x, c) \<in> set others" "(cls_gradeId cls = None) \<noteq> (cls_gradeId c = None)" for x c
    using gradeExclusivityCheck_complete[of x c s "Some (vm_classSessionId mi)" b
        "vm_targetDayOfWeek mi" "vm_semesterId mi" "cls_gradeId cls"]
      that o bid cv
    by (auto simp: moveConflicts_def)
  have 2: "\<forall>k \<in> set (conflicts v). conflict_type k \<noteq> CT_homeroom"
    if "cls_gradeId cls = None" "\<forall>(x, c) \<in> set others. cls_gradeId c = None"
    using homeroom_conflicts_shared[of s "Some (vm_classSessionId mi)" b "vm_targetDayOfWeek mi" "vm_semesterId mi"] that o bid cv
    by (auto simp: moveConflicts_def dest!: roomCheck_elem roomDutyCheck_elem teacherCheck_elem)
  from 1 2 show ?thesis by blast
qed

text \<open>
  On the sample schedule: Spanish (shared) created in B2 on Tuesday, where sessions 2 and
  3 are of grade-specific classes, gets a conflict for each; so does session 4 (Spanish)
  moved there. Art (shared) created in B3 on Wednesday, where only Spanish is, gets none.
\<close>

theorem grade_exclusivity_witness:
  "(validateSessionCreate exStore exCreateSpanish = Inr exSpanishVerdict
    \<and> map (\<lambda>(x, c). (cs_id x, cls_gradeId c))
          (conflictingSessions exStore None (vc_targetBlockId exCreateSpanish)
             (vc_targetDayOfWeek exCreateSpanish) (vc_semesterId exCreateSpanish))
        = [(2, Some 2), (3, Some 1)]
    \<and> list_all (\<lambda>(x, c).
          (cls_gradeId exSpanish = None) \<noteq> (cls_gradeId c = None) \<longrightarrow>
            (\<exists>k \<in> set (conflicts exSpanishVerdict). conflict_type k = CT_homeroom
                \<and> conflict_relatedSessionId k = Some (cs_id x)))
        (conflictingSessions exStore None (vc_targetBlockId exCreateSpanish)
           (vc_targetDayOfWeek exCreateSpanish) (vc_semesterId exCreateSpanish)))
   \<and> (validateSessionMove exStore exMoveSpanish = Inr exSpanishVerdict
    \<and> list_all (\<lambda>(x, c).
          (cls_gradeId exSpanish = None) \<noteq> (cls_gradeId c = None) \<longrightarrow>
            (\<exists>k \<in> set (conflicts exSpanishVerdict). conflict_type k = CT_homeroom
                \<and> conflict_relatedSessionId k = Some (cs_id x)))
        (conflictingSessions exStore (Some (vm_classSessionId exMoveSpanish))
           (vm_targetBlockId exMoveSpanish) (vm_targetDayOfWeek exMoveSpanish)
           (vm_semesterId exMoveSpanish)))
   \<and> (validateSessionCreate exStore exCreateArt
         = Inr \<lparr>valid = True, conflicts = [], warnings = []\<rparr>
    \<and> map (\<lambda>(x, c). (cs_id x, cls_gradeId c))
          (conflictingSessions exStore None (vc_targetBlockId exCreateArt)
             (vc_targetDayOfWeek exCreateArt) (vc_semesterId exCreateArt))
        = [(4, None)]
    \<and> list_all (\<lambda>k. conflict_type k \<noteq> CT_homeroom)
          (conflicts \<lparr>valid = True, conflicts = [], warnings = []\<rparr>))"
proof -
  have c: "validateSessionCreate exStore exCreateSpanish = Inr exSpanishVerdict"
    and cc: "class_findUnique exStore (vc_classId exCreateSpanish) = Some exSpanish"
    and co: "map (\<lambda>(x, c). (cs_id x, cls_gradeId c))
          (conflictingSessions exStore None (vc_targetBlockId exCreateSpanish)
             (vc_targetDayOfWeek exCreateSpanish) (vc_semesterId exCreateSpanish))
        = [(2, Some 2), (3, Some 1)]"
    by code_simp+
  have m: "validateSessionMove exStore exMoveSpanish = Inr exSpanishVerdict"
    and mc: "classSession_findUnique exStore (vm_classSessionId exMoveSpanish)
        = Some (\<lparr>cs_id = 4, cs_classId = 3, cs_blockId = 3, cs_dayOfWeek = 3, cs_roomId = 1,
                  cs_semesterId = 1, cs_homeroomId = None\<rparr>, exSpanish)"
    by code_simp+
  have a: "validateSessionCreate exStore exCreateArt
         = Inr \<lparr>valid = True, conflicts = [], warnings = []\<rparr>"
    and ac: "class_findUnique exStore (vc_classId exCreateArt)
        = Some \<lparr>cls_id = 5, cls_name = ''Art'', cls_gradeId = None\<rparr>"
    and ao: "map (\<lambda>(x, c). (cs_id x, cls_gradeId c))
          (conflictingSessions exStore None (vc_targetBlockId exCreateArt)
             (vc_targetDayOfWeek exCreateArt) (vc_semesterId exCreateArt))
        = [(4, None)]"
    and ah: "cls_gradeId \<lparr>cls_id = 5, cls_name = ''Art'', cls_gradeId = None\<rparr> = None
       \<and> (\<forall>(x, c) \<in> set (conflictingSessions exStore None (vc_targetBlockId exCreateArt)
             (vc_targetDayOfWeek exCreateArt) (vc_semesterId exCreateArt)). cls_gradeId c = None)"
    by code_simp+
  note 1 = grade_exclusivity[OF disjI1, OF conjI[OF c conjI[OF cc refl]], THEN conjunct1,
      folded list_all_iff]
  note 2 = grade_exclusivity[OF disjI2, OF conjI[OF m conjI[OF mc refl]], THEN conjunct1,
      folded list_all_iff]
  note 3 = grade_exclusivity[OF disjI1, OF conjI[OF a conjI[OF ac refl]], THEN conjunct2,
      THEN mp, OF ah, folded list_all_iff]
  show ?thesis
    by (rule conjI[OF conjI[OF c conjI[OF co 1]] conjI[OF conjI[OF m 2] conjI[OF a conjI[OF ao 3]]]])
qed

text \<open>
  C8. Duplicate on the same day. \<open>dups\<close> are the sessions of the class on the target day
  of the semester (for a move, without the moved session). When there is at least one,
  the verdict has the one warning \<^verbatim>\<open>duplicate_class\<close>, whose message gives their number
  and which names one of them; when there is none, it has no warning. The duplicates play
  no part in the conflicts: the list of conflicts is empty and the verdict is valid
  exactly when none of the blocking checks is met, that is, when no (other) session of
  the target block, day and semester is in the target room, has a class of the grade of
  the placed class, or has a class that is shared where the placed class is not (or the
  reverse), no duty of the target block, day and semester is in the target room or is a
  duty of a teacher of the moved session, and no teacher of the moved session is linked
  to another session of the target block, day and semester.
\<close>

theorem duplicate_class_warning:
  assumes "validateSessionCreate s ci = Inr v
             \<and> class_findUnique s (vc_classId ci) = Some cls
             \<and> excl = None \<and> classId = vc_classId ci \<and> blockId = vc_targetBlockId ci
             \<and> day = vc_targetDayOfWeek ci \<and> roomId = vc_targetRoomId ci
             \<and> sem = vc_semesterId ci \<and> assigned = []
         \<or> validateSessionMove s mi = Inr v
             \<and> classSession_findUnique s (vm_classSessionId mi) = Some (session, cls)
             \<and> excl = Some (vm_classSessionId mi) \<and> classId = cs_classId session
             \<and> blockId = vm_targetBlockId mi
             \<and> day = vm_targetDayOfWeek mi \<and> roomId = vm_targetRoomId mi
             \<and> sem = vm_semesterId mi \<and> assigned = sessionTeachers s (vm_classSessionId mi)"
    and "dups = filter (\<lambda>x. notSelf excl x \<and> cs_dayOfWeek x = day \<and> cs_semesterId x = sem
                          \<and> cs_classId x = classId) (classSessions s)"
    and "others = conflictingSessions s excl blockId day sem"
    and "slotDuties = filter (\<lambda>du. dut_blockId du = blockId \<and> dut_dayOfWeek du = day
                                 \<and> dut_semesterId du = sem) (duties s)"
  shows "(dups \<noteq> [] \<longrightarrow>
            (\<exists>x \<in> set dups. warnings v =
              [\<lparr>warning_type = WT_duplicate_class,
                warning_message = cls_name cls @ '' is already scheduled '' @ showNat (length dups)
                   @ '' time(s) on '' @ dayName day @ ''.'',
                warning_relatedSessionId = Some (cs_id x)\<rparr>]))
       \<and> (dups = [] \<longrightarrow> warnings v = [])
       \<and> (conflicts v = [] \<and> valid v \<longleftrightarrow>
            \<not> ((\<exists>(x, c) \<in> set others. cs_roomId x = roomId
                    \<or> (truthy (cls_gradeId cls) \<and> cls_gradeId c = cls_gradeId cls)
                    \<or> (cls_gradeId cls = None) \<noteq> (cls_gradeId c = None))
               \<or> (\<exists>du \<in> set slotDuties. dut_roomId du = roomId
                    \<or> (\<exists>a \<in> set assigned. dut_teacherId du = cst_teacherId a))
               \<or> (\<exists>a \<in> set assigned. \<exists>(l, x, c) \<in> set (linksWithSession s).
                      cst_teacherId l = cst_teacherId a \<and> inSlot excl blockId day sem x)))"
  using assms(1)
proof (elim disjE conjE)
  assume v: "validateSessionCreate s ci = Inr v"
    and c: "class_findUnique s (vc_classId ci) = Some cls"
    and e: "excl = None" "classId = vc_classId ci" "blockId = vc_targetBlockId ci"
      "day = vc_targetDayOfWeek ci" "roomId = vc_targetRoomId ci" "sem = vc_semesterId ci"
      "assigned = []"
  from v c obtain b where b: "block_findUnique s (vc_targetBlockId ci) = Some b"
    and vv: "v = \<lparr>valid = (createConflicts s ci cls b = []),
            conflicts = createConflicts s ci cls b, warnings = createWarnings s ci cls\<rparr>"
    by (auto elim!: validateSessionCreate_Inr)
  note bid = block_findUnique_id[OF b]
  from c have d: "duplicateCheck s None (vc_classId ci) day sem = dups"
    using duplicateCheck_raw[of s "vc_classId ci" None day sem] assms(2) e by simp
  have w: "warnings v = duplicateWarning (cls_name cls) day dups"
    using vv e d by (simp add: createWarnings_def)
  have 1: "dups \<noteq> [] \<longrightarrow>
            (\<exists>x \<in> set dups. warnings v =
              [\<lparr>warning_type = WT_duplicate_class,
                warning_message = cls_name cls @ '' is already scheduled '' @ showNat (length dups)
                   @ '' time(s) on '' @ dayName day @ ''.'',
                warning_relatedSessionId = Some (cs_id x)\<rparr>])"
    unfolding w using duplicateWarning_some[of dups "cls_name cls" day] by blast
  have 2: "dups = [] \<longrightarrow> warnings v = []"
    unfolding w by (simp add: duplicateWarning_def)
  have cf: "conflicts v = [] \<and> valid v \<longleftrightarrow>
      roomCheck s None b day roomId sem = [] \<and> roomDutyCheck s b day roomId sem = []
      \<and> homeroomCheck s None (cls_gradeId cls) b day sem = []
      \<and> gradeExclusivityCheck s None (cls_gradeId cls) b day sem = []"
    using vv e by (auto simp: createConflicts_def)
  have sd: "du \<in> set slotDuties \<longleftrightarrow> du \<in> set (duties s) \<and> dut_blockId du = blk_id b
      \<and> dut_dayOfWeek du = day \<and> dut_semesterId du = sem" for du
    using assms(4) bid e by auto
  have ot: "others = conflictingSessions s None (blk_id b) day sem"
    using assms(3) bid e by simp
  have 3: "conflicts v = [] \<and> valid v \<longleftrightarrow>
            \<not> ((\<exists>(x, c) \<in> set others. cs_roomId x = roomId
                    \<or> (truthy (cls_gradeId cls) \<and> cls_gradeId c = cls_gradeId cls)
                    \<or> (cls_gradeId cls = None) \<noteq> (cls_gradeId c = None))
               \<or> (\<exists>du \<in> set slotDuties. dut_roomId du = roomId
                    \<or> (\<exists>a \<in> set assigned. dut_teacherId du = cst_teacherId a))
               \<or> (\<exists>a \<in> set assigned. \<exists>(l, x, c) \<in> set (linksWithSession s).
                      cst_teacherId l = cst_teacherId a \<and> inSlot excl blockId day sem x))"
    unfolding cf roomCheck_empty_iff roomDutyCheck_empty_iff homeroomCheck_empty_iff
      gradeExclusivityCheck_empty_iff ot[symmetric] e(7)
    by (auto simp: sd)
  from 1 2 3 show ?thesis by blast
next
  assume v: "validateSessionMove s mi = Inr v"
    and c: "classSession_findUnique s (vm_classSessionId mi) = Some (session, cls)"
    and e: "excl = Some (vm_classSessionId mi)" "classId = cs_classId session"
      "blockId = vm_targetBlockId mi" "day = vm_targetDayOfWeek mi"
      "roomId = vm_targetRoomId mi" "sem = vm_semesterId mi"
      "assigned = sessionTeachers s (vm_classSessionId mi)"
  from v c obtain b where b: "block_findUnique s (vm_targetBlockId mi) = Some b"
    and vv: "v = \<lparr>valid = (moveConflicts s mi cls b = []),
            conflicts = moveConflicts s mi cls b, warnings = moveWarnings s mi session cls\<rparr>"
    by (auto elim!: validateSessionMove_Inr)
  note bid = block_findUnique_id[OF b]
  from classSession_findUnique_D[OF c] have "class_findUnique s (cs_classId session) \<noteq> None" by simp
  then have d: "duplicateCheck s (Some (vm_classSessionId mi)) (cs_classId session) day sem = dups"
    using duplicateCheck_raw[of s "cs_classId session" "Some (vm_classSessionId mi)" day sem] assms(2) e
    by simp
  have w: "warnings v = duplicateWarning (cls_name cls) day dups"
    using vv e d by (simp add: moveWarnings_def)
  have 1: "dups \<noteq> [] \<longrightarrow>
            (\<exists>x \<in> set dups. warnings v =
              [\<lparr>warning_type = WT_duplicate_class,
                warning_message = cls_name cls @ '' is already scheduled '' @ showNat (length dups)
                   @ '' time(s) on '' @ dayName day @ ''.'',
                warning_relatedSessionId = Some (cs_id x)\<rparr>])"
    unfolding w using duplicateWarning_some[of dups "cls_name cls" day] by blast
  have 2: "dups = [] \<longrightarrow> warnings v = []"
    unfolding w by (simp add: duplicateWarning_def)
  have cf: "conflicts v = [] \<and> valid v \<longleftrightarrow>
      teacherCheck s (vm_classSessionId mi) b day sem = []
      \<and> roomCheck s excl b day roomId sem = [] \<and> roomDutyCheck s b day roomId sem = []
      \<and> homeroomCheck s excl (cls_gradeId cls) b day sem = []
      \<and> gradeExclusivityCheck s excl (cls_gradeId cls) b day sem = []"
    using vv e by (auto simp: moveConflicts_def)
  have sd: "du \<in> set slotDuties \<longleftrightarrow> du \<in> set (duties s) \<and> dut_blockId du = blk_id b
      \<and> dut_dayOfWeek du = day \<and> dut_semesterId du = sem" for du
    using assms(4) bid e by auto
  have ot: "others = conflictingSessions s excl (blk_id b) day sem"
    using assms(3) bid e by simp
  have bl: "blockId = blk_id b" using bid e by simp
  have r1: "roomCheck s excl b day roomId sem = []
      \<longleftrightarrow> \<not> (\<exists>(x, c) \<in> set others. cs_roomId x = roomId)"
    unfolding ot by (rule roomCheck_empty_iff)
  have r2: "roomDutyCheck s b day roomId sem = []
      \<longleftrightarrow> \<not> (\<exists>du \<in> set slotDuties. dut_roomId du = roomId)"
    unfolding roomDutyCheck_empty_iff by (auto simp: sd)
  have r3: "homeroomCheck s excl (cls_gradeId cls) b day sem = []
      \<longleftrightarrow> \<not> (\<exists>(x, c) \<in> set others. truthy (cls_gradeId cls) \<and> cls_gradeId c = cls_gradeId cls)"
    unfolding ot homeroomCheck_empty_iff by auto
  have r4: "gradeExclusivityCheck s excl (cls_gradeId cls) b day sem = []
      \<longleftrightarrow> \<not> (\<exists>(x, c) \<in> set others. (cls_gradeId cls = None) \<noteq> (cls_gradeId c = None))"
    unfolding ot by (rule gradeExclusivityCheck_empty_iff)
  have r5: "teacherCheck s (vm_classSessionId mi) b day sem = []
      \<longleftrightarrow> \<not> ((\<exists>du \<in> set slotDuties. \<exists>a \<in> set assigned. dut_teacherId du = cst_teacherId a)
             \<or> (\<exists>a \<in> set assigned. \<exists>(l, x, c) \<in> set (linksWithSession s).
                      cst_teacherId l = cst_teacherId a \<and> inSlot excl blockId day sem x))"
  proof -
    have a: "(\<exists>du \<in> set slotDuties. \<exists>a \<in> set assigned. dut_teacherId du = cst_teacherId a)
      \<longleftrightarrow> (\<exists>a \<in> set assigned. \<exists>du \<in> set (duties s). dut_teacherId du = cst_teacherId a
             \<and> dut_blockId du = blk_id b \<and> dut_dayOfWeek du = day \<and> dut_semesterId du = sem)"
      using sd by blast
    show ?thesis unfolding teacherCheck_empty_iff a e(7)[symmetric] e(1)[symmetric] bl[symmetric]
      by blast
  qed
  have 3: "conflicts v = [] \<and> valid v \<longleftrightarrow>
            \<not> ((\<exists>(x, c) \<in> set others. cs_roomId x = roomId
                    \<or> (truthy (cls_gradeId cls) \<and> cls_gradeId c = cls_gradeId cls)
                    \<or> (cls_gradeId cls = None) \<noteq> (cls_gradeId c = None))
               \<or> (\<exists>du \<in> set slotDuties. dut_roomId du = roomId
                    \<or> (\<exists>a \<in> set assigned. dut_teacherId du = cst_teacherId a))
               \<or> (\<exists>a \<in> set assigned. \<exists>(l, x, c) \<in> set (linksWithSession s).
                      cst_teacherId l = cst_teacherId a \<and> inSlot excl blockId day sem x))"
    unfolding cf r1 r2 r3 r4 r5 by blast
  from 1 2 3 show ?thesis by blast
qed

text \<open>
  On the sample schedule with session 7 (Math11, Grade 11) in B3 on Monday in R3: Math10,
  which has session 1 on Monday in B1, is created in B3 on Monday in R2, and session 5 of
  Math10 is moved there. The target block holds session 7, which meets none of the
  blocking checks: the verdict is valid, with the warning.
\<close>

theorem duplicate_class_warning_witness:
  "validateSessionCreate exStoreBusy
       \<lparr>vc_classId = 1, vc_targetBlockId = 3, vc_targetDayOfWeek = 1, vc_targetRoomId = 2,
        vc_semesterId = 1\<rparr>
     = Inr \<lparr>valid = True, conflicts = [],
            warnings = [\<lparr>warning_type = WT_duplicate_class,
                         warning_message = ''Math10 is already scheduled 1 time(s) on Monday.'',
                         warning_relatedSessionId = Some 1\<rparr>]\<rparr>
   \<and> validateSessionMove exStoreBusy
       \<lparr>vm_classSessionId = 5, vm_targetBlockId = 3, vm_targetDayOfWeek = 1, vm_targetRoomId = 2,
        vm_semesterId = 1\<rparr>
     = Inr \<lparr>valid = True, conflicts = [],
            warnings = [\<lparr>warning_type = WT_duplicate_class,
                         warning_message = ''Math10 is already scheduled 1 time(s) on Monday.'',
                         warning_relatedSessionId = Some 1\<rparr>]\<rparr>
   \<and> (\<exists>x \<in> set (filter (\<lambda>x. notSelf None x \<and> cs_dayOfWeek x = 1 \<and> cs_semesterId x = 1
                              \<and> cs_classId x = 1) (classSessions exStoreBusy)).
         warnings \<lparr>valid = True, conflicts = [],
            warnings = [\<lparr>warning_type = WT_duplicate_class,
                         warning_message = ''Math10 is already scheduled 1 time(s) on Monday.'',
                         warning_relatedSessionId = Some 1\<rparr>]\<rparr>
          = [\<lparr>warning_type = WT_duplicate_class,
              warning_message = cls_name \<lparr>cls_id = 1, cls_name = ''Math10'', cls_gradeId = Some 1\<rparr>
                 @ '' is already scheduled ''
                 @ showNat (length (filter (\<lambda>x. notSelf None x \<and> cs_dayOfWeek x = 1
                      \<and> cs_semesterId x = 1 \<and> cs_classId x = 1) (classSessions exStoreBusy)))
                 @ '' time(s) on '' @ dayName 1 @ ''.'',
              warning_relatedSessionId = Some (cs_id x)\<rparr>])
   \<and> map cs_id (filter (\<lambda>x. notSelf (Some 5) x \<and> cs_dayOfWeek x = 1 \<and> cs_semesterId x = 1
                              \<and> cs_classId x = 1) (classSessions exStoreBusy)) = [1]
   \<and> map (\<lambda>(x, c). (cs_id x, cs_roomId x, cls_gradeId c))
         (conflictingSessions exStoreBusy (Some 5) 3 1 1) = [(7, 3, Some 2)]
   \<and> (conflicts \<lparr>valid = True, conflicts = [],
            warnings = [\<lparr>warning_type = WT_duplicate_class,
                         warning_message = ''Math10 is already scheduled 1 time(s) on Monday.'',
                         warning_relatedSessionId = Some 1\<rparr>]\<rparr> = []
        \<and> valid \<lparr>valid = True, conflicts = [],
            warnings = [\<lparr>warning_type = WT_duplicate_class,
                         warning_message = ''Math10 is already scheduled 1 time(s) on Monday.'',
                         warning_relatedSessionId = Some 1\<rparr>]\<rparr>)"
proof -
  let ?math = "\<lparr>cls_id = 1, cls_name = ''Math10'', cls_gradeId = Some 1\<rparr>"
  let ?s5 = "\<lparr>cs_id = 5, cs_classId = 1, cs_blockId = 3, cs_dayOfWeek = 4, cs_roomId = 1,
          cs_semesterId = 1, cs_homeroomId = Some 1\<rparr>"
  let ?ci = "\<lparr>vc_classId = 1, vc_targetBlockId = 3, vc_targetDayOfWeek = 1, vc_targetRoomId = 2,
        vc_semesterId = 1\<rparr>"
  let ?mi = "\<lparr>vm_classSessionId = 5, vm_targetBlockId = 3, vm_targetDayOfWeek = 1,
        vm_targetRoomId = 2, vm_semesterId = 1\<rparr>"
  let ?v = "\<lparr>valid = True, conflicts = [],
            warnings = [\<lparr>warning_type = WT_duplicate_class,
                         warning_message = ''Math10 is already scheduled 1 time(s) on Monday.'',
                         warning_relatedSessionId = Some 1\<rparr>]\<rparr>"
  have cm: "validateSessionCreate exStoreBusy ?ci = Inr ?v
             \<and> class_findUnique exStoreBusy (vc_classId ?ci) = Some ?math
             \<and> None = None \<and> 1 = vc_classId ?ci \<and> 3 = vc_targetBlockId ?ci
             \<and> 1 = vc_targetDayOfWeek ?ci \<and> 2 = vc_targetRoomId ?ci
             \<and> 1 = vc_semesterId ?ci \<and> [] = []"
    by code_simp
  have ne: "filter (\<lambda>x. notSelf None x \<and> cs_dayOfWeek x = 1 \<and> cs_semesterId x = 1
                              \<and> cs_classId x = 1) (classSessions exStoreBusy) \<noteq> []"
    by code_simp
  note dc = duplicate_class_warning[OF disjI1, OF cm refl refl refl]
  note cw = dc[THEN conjunct1, THEN mp, OF ne]
  have m: "validateSessionMove exStoreBusy ?mi = Inr ?v
             \<and> classSession_findUnique exStoreBusy (vm_classSessionId ?mi) = Some (?s5, ?math)
             \<and> Some 5 = Some (vm_classSessionId ?mi) \<and> 1 = cs_classId ?s5
             \<and> 3 = vm_targetBlockId ?mi
             \<and> 1 = vm_targetDayOfWeek ?mi \<and> 2 = vm_targetRoomId ?mi
             \<and> 1 = vm_semesterId ?mi
             \<and> sessionTeachers exStoreBusy 5 = sessionTeachers exStoreBusy (vm_classSessionId ?mi)"
    by code_simp
  have d: "map cs_id (filter (\<lambda>x. notSelf (Some 5) x \<and> cs_dayOfWeek x = 1 \<and> cs_semesterId x = 1
                              \<and> cs_classId x = 1) (classSessions exStoreBusy)) = [1]"
    by code_simp
  have o: "map (\<lambda>(x, c). (cs_id x, cs_roomId x, cls_gradeId c))
         (conflictingSessions exStoreBusy (Some 5) 3 1 1) = [(7, 3, Some 2)]"
    by code_simp
  have free: "\<not> ((\<exists>(x, c) \<in> set (conflictingSessions exStoreBusy (Some 5) 3 1 1). cs_roomId x = 2
                    \<or> (truthy (cls_gradeId ?math) \<and> cls_gradeId c = cls_gradeId ?math)
                    \<or> (cls_gradeId ?math = None) \<noteq> (cls_gradeId c = None))
               \<or> (\<exists>du \<in> set (filter (\<lambda>du. dut_blockId du = 3 \<and> dut_dayOfWeek du = 1
                                 \<and> dut_semesterId du = 1) (duties exStoreBusy)).
                    dut_roomId du = 2
                    \<or> (\<exists>a \<in> set (sessionTeachers exStoreBusy 5). dut_teacherId du = cst_teacherId a))
               \<or> (\<exists>a \<in> set (sessionTeachers exStoreBusy 5).
                    \<exists>(l, x, c) \<in> set (linksWithSession exStoreBusy).
                      cst_teacherId l = cst_teacherId a \<and> inSlot (Some 5) 3 1 1 x))"
    by code_simp
  note dw = duplicate_class_warning[OF disjI2, OF m refl refl refl]
  note 5 = dw[THEN conjunct2, THEN conjunct2, THEN iffD2, OF free]
  show ?thesis
    by (rule conjI[OF cm[THEN conjunct1] conjI[OF m[THEN conjunct1]
          conjI[OF cw conjI[OF d conjI[OF o 5]]]]])
qed

text \<open>
  C3 (amended). \<open>validateSessionCreate\<close> fails with NOT_FOUND when the class does not
  exist and, when it does, when the target block does not exist; \<open>validateSessionMove\<close>
  likewise for the session and the target block. The target room is not looked up: when
  the class (or the session) and the block exist, the validation returns a verdict,
  whatever the room. No error comes from a scheduling conflict: the only errors are these
  NOT_FOUND errors and the rejection of a day outside 1 to 5.
\<close>

theorem validation_errors:
  "(validateSessionCreate s ci = Inl e \<longrightarrow>
      e = InputRejected \<or> e = TRPCError NOT_FOUND ''Class not found''
      \<or> e = TRPCError NOT_FOUND ''Target block not found'')
   \<and> (validateSessionMove s mi = Inl e' \<longrightarrow>
      e' = InputRejected \<or> e' = TRPCError NOT_FOUND ''Class session not found''
      \<or> e' = TRPCError NOT_FOUND ''Target block not found'')
   \<and> (1 \<le> vc_targetDayOfWeek ci \<and> vc_targetDayOfWeek ci \<le> 5 \<longrightarrow>
        (class_findUnique s (vc_classId ci) = None \<longrightarrow>
           validateSessionCreate s ci = Inl (TRPCError NOT_FOUND ''Class not found''))
      \<and> (class_findUnique s (vc_classId ci) \<noteq> None
           \<and> block_findUnique s (vc_targetBlockId ci) = None \<longrightarrow>
           validateSessionCreate s ci = Inl (TRPCError NOT_FOUND ''Target block not found''))
      \<and> (class_findUnique s (vc_classId ci) \<noteq> None
           \<and> block_findUnique s (vc_targetBlockId ci) \<noteq> None \<longrightarrow>
           (\<exists>v. validateSessionCreate s ci = Inr v)))
   \<and> (1 \<le> vm_targetDayOfWeek mi \<and> vm_targetDayOfWeek mi \<le> 5 \<longrightarrow>
        ((\<forall>x \<in> set (classSessions s). cs_id x \<noteq> vm_classSessionId mi) \<longrightarrow>
           validateSessionMove s mi = Inl (TRPCError NOT_FOUND ''Class session not found''))
      \<and> (classSession_findUnique s (vm_classSessionId mi) \<noteq> None
           \<and> block_findUnique s (vm_targetBlockId mi) = None \<longrightarrow>
           validateSessionMove s mi = Inl (TRPCError NOT_FOUND ''Target block not found''))
      \<and> (classSession_findUnique s (vm_classSessionId mi) \<noteq> None
           \<and> block_findUnique s (vm_targetBlockId mi) \<noteq> None \<longrightarrow>
           (\<exists>v. validateSessionMove s mi = Inr v)))"
proof (intro conjI impI)
  assume "validateSessionCreate s ci = Inl e"
  then show "e = InputRejected \<or> e = TRPCError NOT_FOUND ''Class not found''
      \<or> e = TRPCError NOT_FOUND ''Target block not found''"
    by (auto simp: validateSessionCreate_def split: if_splits option.splits)
next
  assume "validateSessionMove s mi = Inl e'"
  then show "e' = InputRejected \<or> e' = TRPCError NOT_FOUND ''Class session not found''
      \<or> e' = TRPCError NOT_FOUND ''Target block not found''"
    by (auto simp: validateSessionMove_def split: if_splits option.splits)
next
  assume "1 \<le> vc_targetDayOfWeek ci \<and> vc_targetDayOfWeek ci \<le> 5"
    "class_findUnique s (vc_classId ci) = None"
  then show "validateSessionCreate s ci = Inl (TRPCError NOT_FOUND ''Class not found'')"
    by (simp add: validateSessionCreate_def)
next
  assume "1 \<le> vc_targetDayOfWeek ci \<and> vc_targetDayOfWeek ci \<le> 5"
    "class_findUnique s (vc_classId ci) \<noteq> None \<and> block_findUnique s (vc_targetBlockId ci) = None"
  then show "validateSessionCreate s ci = Inl (TRPCError NOT_FOUND ''Target block not found'')"
    by (auto simp: validateSessionCreate_def)
next
  assume "1 \<le> vc_targetDayOfWeek ci \<and> vc_targetDayOfWeek ci \<le> 5"
    "class_findUnique s (vc_classId ci) \<noteq> None \<and> block_findUnique s (vc_targetBlockId ci) \<noteq> None"
  then show "\<exists>v. validateSessionCreate s ci = Inr v"
    by (auto simp: validateSessionCreate_def)
next
  assume "1 \<le> vm_targetDayOfWeek mi \<and> vm_targetDayOfWeek mi \<le> 5"
    "\<forall>x \<in> set (classSessions s). cs_id x \<noteq> vm_classSessionId mi"
  then show "validateSessionMove s mi = Inl (TRPCError NOT_FOUND ''Class session not found'')"
    by (simp add: validateSessionMove_def classSession_findUnique_None)
next
  assume "1 \<le> vm_targetDayOfWeek mi \<and> vm_targetDayOfWeek mi \<le> 5"
    "classSession_findUnique s (vm_classSessionId mi) \<noteq> None
       \<and> block_findUnique s (vm_targetBlockId mi) = None"
  then show "validateSessionMove s mi = Inl (TRPCError NOT_FOUND ''Target block not found'')"
    by (auto simp: validateSessionMove_def)
next
  assume "1 \<le> vm_targetDayOfWeek mi \<and> vm_targetDayOfWeek mi \<le> 5"
    "classSession_findUnique s (vm_classSessionId mi) \<noteq> None
       \<and> block_findUnique s (vm_targetBlockId mi) \<noteq> None"
  then show "\<exists>v. validateSessionMove s mi = Inr v"
    by (auto simp: validateSessionMove_def)
qed

text \<open>
  On the sample schedule: a class, a session and a block that do not exist, and a
  validation with conflicts, which returns.
\<close>

theorem validation_errors_witness:
  "validateSessionCreate exStore
       \<lparr>vc_classId = 99, vc_targetBlockId = 1, vc_targetDayOfWeek = 1, vc_targetRoomId = 1,
        vc_semesterId = 1\<rparr>
     = Inl (TRPCError NOT_FOUND ''Class not found'')
   \<and> validateSessionCreate exStore
       \<lparr>vc_classId = 1, vc_targetBlockId = 9, vc_targetDayOfWeek = 1, vc_targetRoomId = 1,
        vc_semesterId = 1\<rparr>
     = Inl (TRPCError NOT_FOUND ''Target block not found'')
   \<and> (\<exists>v. validateSessionCreate exStore
       \<lparr>vc_classId = 3, vc_targetBlockId = 2, vc_targetDayOfWeek = 2, vc_targetRoomId = 1,
        vc_semesterId = 1\<rparr> = Inr v)
   \<and> validateSessionMove exStore
       \<lparr>vm_classSessionId = 42, vm_targetBlockId = 1, vm_targetDayOfWeek = 1, vm_targetRoomId = 1,
        vm_semesterId = 1\<rparr>
     = Inl (TRPCError NOT_FOUND ''Class session not found'')
   \<and> validateSessionMove exStore
       \<lparr>vm_classSessionId = 1, vm_targetBlockId = 9, vm_targetDayOfWeek = 1, vm_targetRoomId = 1,
        vm_semesterId = 1\<rparr>
     = Inl (TRPCError NOT_FOUND ''Target block not found'')
   \<and> (\<exists>v. validateSessionMove exStore
       \<lparr>vm_classSessionId = 2, vm_targetBlockId = 1, vm_targetDayOfWeek = 1, vm_targetRoomId = 2,
        vm_semesterId = 1\<rparr> = Inr v)"
proof -
  let ?c1 = "\<lparr>vc_classId = 99, vc_targetBlockId = 1, vc_targetDayOfWeek = 1, vc_targetRoomId = 1,
        vc_semesterId = 1\<rparr>"
  let ?c2 = "\<lparr>vc_classId = 1, vc_targetBlockId = 9, vc_targetDayOfWeek = 1, vc_targetRoomId = 1,
        vc_semesterId = 1\<rparr>"
  let ?c3 = "\<lparr>vc_classId = 3, vc_targetBlockId = 2, vc_targetDayOfWeek = 2, vc_targetRoomId = 1,
        vc_semesterId = 1\<rparr>"
  let ?m1 = "\<lparr>vm_classSessionId = 42, vm_targetBlockId = 1, vm_targetDayOfWeek = 1,
        vm_targetRoomId = 1, vm_semesterId = 1\<rparr>"
  let ?m2 = "\<lparr>vm_classSessionId = 1, vm_targetBlockId = 9, vm_targetDayOfWeek = 1,
        vm_targetRoomId = 1, vm_semesterId = 1\<rparr>"
  let ?m3 = "\<lparr>vm_classSessionId = 2, vm_targetBlockId = 1, vm_targetDayOfWeek = 1,
        vm_targetRoomId = 2, vm_semesterId = 1\<rparr>"
  have h1: "1 \<le> vc_targetDayOfWeek ?c1 \<and> vc_targetDayOfWeek ?c1 \<le> 5"
    "class_findUnique exStore (vc_classId ?c1) = None"
    "1 \<le> vm_targetDayOfWeek ?m1 \<and> vm_targetDayOfWeek ?m1 \<le> 5"
    "\<forall>x \<in> set (classSessions exStore). cs_id x \<noteq> vm_classSessionId ?m1"
    by code_simp+
  have h2: "1 \<le> vc_targetDayOfWeek ?c2 \<and> vc_targetDayOfWeek ?c2 \<le> 5"
    "class_findUnique exStore (vc_classId ?c2) \<noteq> None
       \<and> block_findUnique exStore (vc_targetBlockId ?c2) = None"
    "1 \<le> vm_targetDayOfWeek ?m2 \<and> vm_targetDayOfWeek ?m2 \<le> 5"
    "classSession_findUnique exStore (vm_classSessionId ?m2) \<noteq> None
       \<and> block_findUnique exStore (vm_targetBlockId ?m2) = None"
    by code_simp+
  have h3: "1 \<le> vc_targetDayOfWeek ?c3 \<and> vc_targetDayOfWeek ?c3 \<le> 5"
    "class_findUnique exStore (vc_classId ?c3) \<noteq> None
       \<and> block_findUnique exStore (vc_targetBlockId ?c3) \<noteq> None"
    "1 \<le> vm_targetDayOfWeek ?m3 \<and> vm_targetDayOfWeek ?m3 \<le> 5"
    "classSession_findUnique exStore (vm_classSessionId ?m3) \<noteq> None
       \<and> block_findUnique exStore (vm_targetBlockId ?m3) \<noteq> None"
    by code_simp+
  from validation_errors[of exStore ?c1 _ ?m1] h1
  have 1: "validateSessionCreate exStore ?c1 = Inl (TRPCError NOT_FOUND ''Class not found'')"
    "validateSessionMove exStore ?m1 = Inl (TRPCError NOT_FOUND ''Class session not found'')"
    by simp_all
  from validation_errors[of exStore ?c2 _ ?m2] h2
  have 2: "validateSessionCreate exStore ?c2 = Inl (TRPCError NOT_FOUND ''Target block not found'')"
    "validateSessionMove exStore ?m2 = Inl (TRPCError NOT_FOUND ''Target block not found'')"
    by simp_all
  from validation_errors[of exStore ?c3 _ ?m3] h3
  have 3: "\<exists>v. validateSessionCreate exStore ?c3 = Inr v"
    "\<exists>v. validateSessionMove exStore ?m3 = Inr v"
    by simp_all
  show ?thesis
    by (rule conjI[OF 1(1) conjI[OF 2(1) conjI[OF 3(1) conjI[OF 1(2) conjI[OF 2(2) 3(2)]]]]])
qed

text \<open>
  C3 as stated fails for the room: Art created in B3 on Friday in a room that does not
  exist is given a verdict, and a valid one.
\<close>

theorem missing_room_is_not_reported:
  "room_findUnique exStore 99 = None
   \<and> validateSessionCreate exStore
       \<lparr>vc_classId = 5, vc_targetBlockId = 3, vc_targetDayOfWeek = 5, vc_targetRoomId = 99,
        vc_semesterId = 1\<rparr>
     = Inr \<lparr>valid = True, conflicts = [], warnings = []\<rparr>"
  by code_simp

text \<open>
  C2 (amended). Teacher double booking is checked by \<open>validateSessionMove\<close> only, for
  every teacher linked to the moved session. When the teacher is linked to another
  session of the target block, day and semester, the verdict has a teacher conflict that
  names such a session; when the teacher has a duty in the target block, day and
  semester, the verdict has a teacher conflict without related session.
  \<open>validateSessionCreate\<close> has no teacher among its inputs and no teacher check: its
  verdict has no teacher conflict.
\<close>

theorem teacher_double_booking:
  "(validateSessionMove s mi = Inr v \<and> a \<in> set (sessionTeachers s (vm_classSessionId mi)) \<longrightarrow>
      ((\<exists>(l, x, c) \<in> set (linksWithSession s). cst_teacherId l = cst_teacherId a
           \<and> inSlot (Some (vm_classSessionId mi)) (vm_targetBlockId mi) (vm_targetDayOfWeek mi)
                (vm_semesterId mi) x) \<longrightarrow>
         (\<exists>k \<in> set (conflicts v). conflict_type k = CT_teacher \<and>
            (\<exists>(l, x, c) \<in> set (linksWithSession s). cst_teacherId l = cst_teacherId a
               \<and> inSlot (Some (vm_classSessionId mi)) (vm_targetBlockId mi) (vm_targetDayOfWeek mi)
                    (vm_semesterId mi) x
               \<and> conflict_relatedSessionId k = Some (cs_id x))))
    \<and> ((\<exists>du \<in> set (duties s). dut_teacherId du = cst_teacherId a
           \<and> dut_blockId du = vm_targetBlockId mi \<and> dut_dayOfWeek du = vm_targetDayOfWeek mi
           \<and> dut_semesterId du = vm_semesterId mi) \<longrightarrow>
         (\<exists>k \<in> set (conflicts v). conflict_type k = CT_teacher
            \<and> conflict_relatedSessionId k = None)))
   \<and> (validateSessionCreate s ci = Inr v' \<longrightarrow>
        (\<forall>k \<in> set (conflicts v'). conflict_type k \<noteq> CT_teacher))"
proof (intro conjI impI)
  assume h: "validateSessionMove s mi = Inr v \<and> a \<in> set (sessionTeachers s (vm_classSessionId mi))"
    and ex: "\<exists>(l, x, c) \<in> set (linksWithSession s). cst_teacherId l = cst_teacherId a
           \<and> inSlot (Some (vm_classSessionId mi)) (vm_targetBlockId mi) (vm_targetDayOfWeek mi)
                (vm_semesterId mi) x"
  from h obtain session cls b where b: "block_findUnique s (vm_targetBlockId mi) = Some b"
    and cv: "conflicts v = moveConflicts s mi cls b"
    by (auto elim!: validateSessionMove_Inr)
  note bid = block_findUnique_id[OF b]
  from ex obtain l x c where "(l, x, c) \<in> set (linksWithSession s)"
    "cst_teacherId l = cst_teacherId a"
    "inSlot (Some (vm_classSessionId mi)) (blk_id b) (vm_targetDayOfWeek mi) (vm_semesterId mi) x"
    using bid by auto
  from teacherStep_session[OF this] obtain k l' x' c' where
    k: "k \<in> set (teacherStep s (vm_classSessionId mi) b (vm_targetDayOfWeek mi) (vm_semesterId mi) a)"
      "conflict_type k = CT_teacher" "(l', x', c') \<in> set (linksWithSession s)"
      "cst_teacherId l' = cst_teacherId a"
      "inSlot (Some (vm_classSessionId mi)) (blk_id b) (vm_targetDayOfWeek mi) (vm_semesterId mi) x'"
      "conflict_relatedSessionId k = Some (cs_id x')"
    by blast
  from k(1) h have "k \<in> set (conflicts v)"
    unfolding cv moveConflicts_def teacherCheck_def by auto
  with k bid show "\<exists>k \<in> set (conflicts v). conflict_type k = CT_teacher \<and>
            (\<exists>(l, x, c) \<in> set (linksWithSession s). cst_teacherId l = cst_teacherId a
               \<and> inSlot (Some (vm_classSessionId mi)) (vm_targetBlockId mi) (vm_targetDayOfWeek mi)
                    (vm_semesterId mi) x
               \<and> conflict_relatedSessionId k = Some (cs_id x))"
    by (intro bexI[of _ k]) auto
next
  assume h: "validateSessionMove s mi = Inr v \<and> a \<in> set (sessionTeachers s (vm_classSessionId mi))"
    and ex: "\<exists>du \<in> set (duties s). dut_teacherId du = cst_teacherId a
           \<and> dut_blockId du = vm_targetBlockId mi \<and> dut_dayOfWeek du = vm_targetDayOfWeek mi
           \<and> dut_semesterId du = vm_semesterId mi"
  from h obtain session cls b where b: "block_findUnique s (vm_targetBlockId mi) = Some b"
    and cv: "conflicts v = moveConflicts s mi cls b"
    by (auto elim!: validateSessionMove_Inr)
  note bid = block_findUnique_id[OF b]
  from ex obtain du where "du \<in> set (duties s)" "dut_teacherId du = cst_teacherId a"
    "dut_blockId du = blk_id b" "dut_dayOfWeek du = vm_targetDayOfWeek mi"
    "dut_semesterId du = vm_semesterId mi"
    using bid by auto
  from teacherStep_duty[OF this, of "vm_classSessionId mi"] obtain k where
    k: "k \<in> set (teacherStep s (vm_classSessionId mi) b (vm_targetDayOfWeek mi) (vm_semesterId mi) a)"
      "conflict_type k = CT_teacher" "conflict_relatedSessionId k = None"
    by blast
  from k(1) h have "k \<in> set (conflicts v)"
    unfolding cv moveConflicts_def teacherCheck_def by auto
  with k show "\<exists>k \<in> set (conflicts v). conflict_type k = CT_teacher
            \<and> conflict_relatedSessionId k = None"
    by blast
next
  assume "validateSessionCreate s ci = Inr v'"
  then show "\<forall>k \<in> set (conflicts v'). conflict_type k \<noteq> CT_teacher"
    by (auto elim!: validateSessionCreate_Inr dest: createConflicts_no_teacher)
qed

text \<open>
  On the sample schedule: session 2 (Math11, taught by T1 and T2) moved to B1 on Monday,
  where T1 teaches session 1 and T2 has lunch duty; and Spanish created in B2 on Tuesday.
\<close>

theorem teacher_double_booking_witness:
  "validateSessionMove exStore
       \<lparr>vm_classSessionId = 2, vm_targetBlockId = 1, vm_targetDayOfWeek = 1, vm_targetRoomId = 2,
        vm_semesterId = 1\<rparr>
     = Inr \<lparr>valid = False,
        conflicts =
          [\<lparr>conflict_type = CT_teacher,
            conflict_message = ''T1 is already teaching Math10 in B1 (Monday).'',
            conflict_relatedSessionId = Some 1\<rparr>,
           \<lparr>conflict_type = CT_teacher,
            conflict_message = ''T2 has Lunch duty in B1 (Monday).'',
            conflict_relatedSessionId = None\<rparr>,
           \<lparr>conflict_type = CT_room,
            conflict_message = ''R2 is already booked for Bio10 in B1 (Monday).'',
            conflict_relatedSessionId = Some 6\<rparr>],
        warnings = []\<rparr>
   \<and> map cst_teacherId (sessionTeachers exStore 2) = [1, 2]
   \<and> validateSessionCreate exStore
       \<lparr>vc_classId = 3, vc_targetBlockId = 2, vc_targetDayOfWeek = 2, vc_targetRoomId = 1,
        vc_semesterId = 1\<rparr>
     = Inr \<lparr>valid = False,
        conflicts =
          [\<lparr>conflict_type = CT_homeroom,
            conflict_message = ''Cannot schedule shared class. Math11 (grade-specific) is already scheduled in B2 (Tuesday).'',
            conflict_relatedSessionId = Some 2\<rparr>,
           \<lparr>conflict_type = CT_homeroom,
            conflict_message = ''Cannot schedule shared class. Bio10 (grade-specific) is already scheduled in B2 (Tuesday).'',
            conflict_relatedSessionId = Some 3\<rparr>],
        warnings = []\<rparr>"
proof -
  let ?mi = "\<lparr>vm_classSessionId = 2, vm_targetBlockId = 1, vm_targetDayOfWeek = 1,
        vm_targetRoomId = 2, vm_semesterId = 1\<rparr>"
  let ?ci = "\<lparr>vc_classId = 3, vc_targetBlockId = 2, vc_targetDayOfWeek = 2, vc_targetRoomId = 1,
        vc_semesterId = 1\<rparr>"
  let ?v = "\<lparr>valid = False,
        conflicts =
          [\<lparr>conflict_type = CT_teacher,
            conflict_message = ''T1 is already teaching Math10 in B1 (Monday).'',
            conflict_relatedSessionId = Some 1\<rparr>,
           \<lparr>conflict_type = CT_teacher,
            conflict_message = ''T2 has Lunch duty in B1 (Monday).'',
            conflict_relatedSessionId = None\<rparr>,
           \<lparr>conflict_type = CT_room,
            conflict_message = ''R2 is already booked for Bio10 in B1 (Monday).'',
            conflict_relatedSessionId = Some 6\<rparr>],
        warnings = []\<rparr>"
  let ?v' = "\<lparr>valid = False,
        conflicts =
          [\<lparr>conflict_type = CT_homeroom,
            conflict_message = ''Cannot schedule shared class. Math11 (grade-specific) is already scheduled in B2 (Tuesday).'',
            conflict_relatedSessionId = Some 2\<rparr>,
           \<lparr>conflict_type = CT_homeroom,
            conflict_message = ''Cannot schedule shared class. Bio10 (grade-specific) is already scheduled in B2 (Tuesday).'',
            conflict_relatedSessionId = Some 3\<rparr>],
        warnings = []\<rparr>"
  let ?a1 = "\<lparr>cst_id = 2, cst_classSessionId = 2, cst_teacherId = 1, cst_role = ''Primary''\<rparr>"
  let ?a2 = "\<lparr>cst_id = 3, cst_classSessionId = 2, cst_teacherId = 2, cst_role = ''Assistant''\<rparr>"
  have m: "validateSessionMove exStore ?mi = Inr ?v" by code_simp
  have c: "validateSessionCreate exStore ?ci = Inr ?v'" by code_simp
  have t: "map cst_teacherId (sessionTeachers exStore 2) = [1, 2]" by code_simp
  have a1: "?a1 \<in> set (sessionTeachers exStore (vm_classSessionId ?mi))" by code_simp
  have a2: "?a2 \<in> set (sessionTeachers exStore (vm_classSessionId ?mi))" by code_simp
  have h1: "\<exists>(l, x, c) \<in> set (linksWithSession exStore). cst_teacherId l = cst_teacherId ?a1
           \<and> inSlot (Some (vm_classSessionId ?mi)) (vm_targetBlockId ?mi) (vm_targetDayOfWeek ?mi)
                (vm_semesterId ?mi) x"
    by code_simp
  have h2: "\<exists>du \<in> set (duties exStore). dut_teacherId du = cst_teacherId ?a2
           \<and> dut_blockId du = vm_targetBlockId ?mi \<and> dut_dayOfWeek du = vm_targetDayOfWeek ?mi
           \<and> dut_semesterId du = vm_semesterId ?mi"
    by code_simp
  from teacher_double_booking[of exStore ?mi ?v ?a1 ?ci ?v'] m a1 h1 c
  have "(\<exists>k \<in> set (conflicts ?v). conflict_type k = CT_teacher
          \<and> conflict_relatedSessionId k \<noteq> None)
        \<and> (\<forall>k \<in> set (conflicts ?v'). conflict_type k \<noteq> CT_teacher)"
    by blast
  moreover from teacher_double_booking[of exStore ?mi ?v ?a2 ?ci ?v'] m a2 h2
  have "\<exists>k \<in> set (conflicts ?v). conflict_type k = CT_teacher
          \<and> conflict_relatedSessionId k = None"
    by blast
  ultimately show ?thesis using m c t by simp
qed

text \<open>
  C2 as stated fails for creations: T1 teaches session 2 in B2 on Tuesday, and the
  validation of a new session of Chem12 in that block and day, in a free room, reports no
  conflict, whichever teacher is meant for it.
\<close>

theorem create_reports_no_teacher_conflict:
  "map cs_id (map fst (conflictingSessions exStore None 2 2 1)) = [2, 3]
   \<and> map cst_teacherId (sessionTeachers exStore 2) = [1, 2]
   \<and> validateSessionCreate exStore
       \<lparr>vc_classId = 6, vc_targetBlockId = 2, vc_targetDayOfWeek = 2, vc_targetRoomId = 1,
        vc_semesterId = 1\<rparr>
     = Inr \<lparr>valid = True, conflicts = [], warnings = []\<rparr>"
  by code_simp

end
